theory Spec2Isabelle
  imports Main "HOL-Library.Sublist" "HOL-Library.Char_ord" "HOL-Library.List_Lexorder"
begin

section \<open>examples/examples\_test.py: the run of one Flask target\<close>

text \<open>
  \<^verbatim>\<open>_run_flask_target\<close> talks to the file system, to a child process and to an HTTP
  server. Everything it reads from outside is collected in a record \<open>world\<close>; everything it
  does to the outside is written, in program order, to a list of \<open>event\<close>s. The registry
  \<^verbatim>\<open>_tested_examples\<close> is passed in and returned.
\<close>

text \<open>
  What one pass through the \<^verbatim>\<open>try\<close> block of the polling loop (lines 117--125) can do:
  \<^verbatim>\<open>urlopen\<close> returns a response whose decoded body is read, or it raises
  \<^verbatim>\<open>HTTPError\<close> (urllib's default opener raises it when the response it ends up with
  has a status that is not 2xx), or it raises another \<^verbatim>\<open>URLError\<close> (refused connection,
  connect timeout, name resolution), or an exception that is neither (for instance a
  decoding error). The string of an exception is \<^verbatim>\<open>str(exc)\<close>.
\<close>

datatype fetch_outcome =
    Fetched string
  | HTTPError_raised string
  | URLError_raised string
  | Other_raised string

record world =
  dir_exists :: bool
  free_port :: nat
  startup_flags :: "string list option"
  poll_result :: "int option"
  fetch :: "nat \<Rightarrow> fetch_outcome"
  wait_expired :: bool

text \<open>
  \<open>dir_exists\<close> is \<^verbatim>\<open>example_dir.exists()\<close> (true of a path of any kind, a regular file
  included), \<open>free_port\<close> the value of
  \<^verbatim>\<open>get_free_port()\<close>, \<open>startup_flags\<close> the tokens of
  \<^verbatim>\<open>shlex.split(os.environ["BAZEL_STARTUP_FLAGS"])\<close> when that variable is set,
  \<open>poll_result\<close> the value of \<^verbatim>\<open>process.poll()\<close> on line 109, \<open>fetch i\<close> the outcome of
  the attempt with loop index \<open>i\<close>, and \<open>wait_expired\<close> tells whether
  \<^verbatim>\<open>process.wait(timeout=5)\<close> raises \<^verbatim>\<open>TimeoutExpired\<close>.
\<close>

datatype event =
    LockAcquire
  | LockRelease
  | Register string
  | DirExists string
  | GetFreePort nat
  | Popen "string list" string nat
  | Poll
  | Urlopen nat
  | Sleep nat
  | Terminate
  | Wait "nat option"
  | Kill

text \<open>
  \<open>Popen cmd cwd port\<close> carries the command line, the example directory and the value of
  \<^verbatim>\<open>FLASK_RUN_PORT\<close>; \<open>Urlopen port\<close> is one GET of \<^verbatim>\<open>http://127.0.0.1:<port>\<close>;
  \<open>Sleep n\<close> is \<^verbatim>\<open>time.sleep(n)\<close>; \<open>Wait (Some 5)\<close> is \<^verbatim>\<open>process.wait(timeout=5)\<close> and
  \<open>Wait None\<close> is \<^verbatim>\<open>process.wait()\<close>. The \<^verbatim>\<open>print\<close> of line 93 is left out. The calls
  that bind the socket, start the process and signal it are taken to return.
\<close>

datatype failure =
    TargetNotFound string
  | PrematureExit int nat
  | ContentMismatch string
  | Unreachable "string list"
  | Propagated string

text \<open>
  The first four are the \<^verbatim>\<open>AssertionError\<close>s of lines 80, 111, 120 and 143, with the data
  their messages print; \<open>Propagated\<close> is an exception of the polling block that the
  \<^verbatim>\<open>except\<close> clause does not catch.
\<close>

definition max_tries :: nat where
  "max_tries = 30"

text \<open>\<^verbatim>\<open>range(n)\<close>.\<close>

definition py_range :: "nat \<Rightarrow> nat list" where
  "py_range n = [0..<n]"

datatype loop_exit = Returned | Raised failure | Exhausted

definition pause_before_retry :: "nat \<Rightarrow> event list" where
  "pause_before_retry i = (if i < max_tries then [Sleep 5] else [])"

text \<open>
  The \<^verbatim>\<open>for\<close> loop of lines 116--129 over the indices still to come. It returns how the
  loop was left, the list \<^verbatim>\<open>logs\<close> and the events of the loop.
\<close>

fun poll_loop :: "world \<Rightarrow> nat \<Rightarrow> nat list \<Rightarrow> string list \<Rightarrow> loop_exit \<times> string list \<times> event list" where
  "poll_loop w port [] logs = (Exhausted, logs, [])"
| "poll_loop w port (i # rest) logs =
     (case fetch w i of
        Fetched content \<Rightarrow>
          if content = ''hello world!'' then (Returned, logs, [Urlopen port])
          else (Raised (ContentMismatch content), logs, [Urlopen port])
      | HTTPError_raised msg \<Rightarrow>
          (case poll_loop w port rest (logs @ [msg]) of
             (ex, logs', evs) \<Rightarrow> (ex, logs', Urlopen port # pause_before_retry i @ evs))
      | URLError_raised msg \<Rightarrow>
          (case poll_loop w port rest (logs @ [msg]) of
             (ex, logs', evs) \<Rightarrow> (ex, logs', Urlopen port # pause_before_retry i @ evs))
      | Other_raised msg \<Rightarrow> (Raised (Propagated msg), logs, [Urlopen port]))"

definition launch_cmd :: "world \<Rightarrow> string \<Rightarrow> string list" where
  "launch_cmd w target =
     [''bazel''] @ (case startup_flags w of None \<Rightarrow> [] | Some args \<Rightarrow> args) @ [''run'', target]"

text \<open>The \<^verbatim>\<open>finally\<close> block, lines 131--141.\<close>

definition cleanup :: "world \<Rightarrow> event list" where
  "cleanup w =
     [Terminate, Wait (Some 5)] @ (if wait_expired w then [Kill, Wait None] else []) @ [Sleep 1]"

text \<open>
  The \<^verbatim>\<open>try\<close> block (lines 107--129) with the \<^verbatim>\<open>self.fail\<close> of line 143, which is
  reached only when the loop runs off its end.
\<close>

definition guarded_body :: "world \<Rightarrow> nat \<Rightarrow> (failure + unit) \<times> event list" where
  "guarded_body w port =
     (case poll_result w of
        Some code \<Rightarrow> (Inl (PrematureExit code port), [Poll])
      | None \<Rightarrow>
          (case poll_loop w port (py_range (max_tries + 1)) [] of
             (Returned, logs, evs) \<Rightarrow> (Inr (), Poll # evs)
           | (Raised f, logs, evs) \<Rightarrow> (Inl f, Poll # evs)
           | (Exhausted, logs, evs) \<Rightarrow> (Inl (Unreachable logs), Poll # evs)))"

text \<open>The body of the \<^verbatim>\<open>with\<close> statement, lines 76--146.\<close>

definition locked_body ::
  "world \<Rightarrow> string \<Rightarrow> string \<Rightarrow> string set \<Rightarrow> (failure + unit) \<times> string set \<times> event list" where
  "locked_body w example target tested =
     (let tested' = insert example tested in
      if \<not> dir_exists w
      then (Inl (TargetNotFound example), tested', [Register example, DirExists example])
      else
        (let port = free_port w in
         case guarded_body w port of
           (res, evs) \<Rightarrow>
             (res, tested',
              [Register example, DirExists example, GetFreePort port,
               Popen (launch_cmd w target) example port] @ evs @ cleanup w)))"

definition run_flask_target ::
  "world \<Rightarrow> string \<Rightarrow> string \<Rightarrow> string set \<Rightarrow> (failure + unit) \<times> string set \<times> event list" where
  "run_flask_target w example target tested =
     (case locked_body w example target tested of
        (res, tested', evs) \<Rightarrow> (res, tested', LockAcquire # evs @ [LockRelease]))"

definition verdict :: "(failure + unit) \<times> string set \<times> event list \<Rightarrow> failure + unit" where
  "verdict r = fst r"

definition registry :: "(failure + unit) \<times> string set \<times> event list \<Rightarrow> string set" where
  "registry r = fst (snd r)"

definition events :: "(failure + unit) \<times> string set \<times> event list \<Rightarrow> event list" where
  "events r = snd (snd r)"

fun is_urlopen :: "event \<Rightarrow> bool" where
  "is_urlopen (Urlopen p) = True"
| "is_urlopen ev = False"

fun is_popen :: "event \<Rightarrow> bool" where
  "is_popen (Popen c d p) = True"
| "is_popen ev = False"

definition http_attempts :: "event list \<Rightarrow> nat" where
  "http_attempts tr = length (filter is_urlopen tr)"

definition launches :: "event list \<Rightarrow> nat" where
  "launches tr = length (filter is_popen tr)"

definition status_polls :: "event list \<Rightarrow> nat" where
  "status_polls tr = count_list tr Poll"

fun retryable :: "fetch_outcome \<Rightarrow> bool" where
  "retryable (HTTPError_raised msg) = True"
| "retryable (URLError_raised msg) = True"
| "retryable out = False"

fun error_text :: "fetch_outcome \<Rightarrow> string" where
  "error_text (Fetched content) = content"
| "error_text (HTTPError_raised msg) = msg"
| "error_text (URLError_raised msg) = msg"
| "error_text (Other_raised msg) = msg"

text \<open>The events of one attempt that the \<^verbatim>\<open>except\<close> clause catches, and of a run up to
  and including the status poll.\<close>

definition failed_attempt :: "nat \<Rightarrow> nat \<Rightarrow> event list" where
  "failed_attempt port i = Urlopen port # pause_before_retry i"

definition launch_events :: "world \<Rightarrow> string \<Rightarrow> string \<Rightarrow> event list" where
  "launch_events w example target =
     [LockAcquire, Register example, DirExists example, GetFreePort (free_port w),
      Popen (launch_cmd w target) example (free_port w)]"

definition unreachable_log :: "failure + unit \<Rightarrow> string list option" where
  "unreachable_log v = (case v of Inl (Unreachable logs) \<Rightarrow> Some logs | _ \<Rightarrow> None)"

section \<open>examples/examples\_test.py: tearDownClass\<close>

text \<open>
  One entry of \<^verbatim>\<open>examples_dir.iterdir()\<close>: its name, \<^verbatim>\<open>path.is_dir()\<close> and
  \<^verbatim>\<open>(path / "BUILD.bazel").exists()\<close>.
\<close>

record dir_entry =
  entry_name :: string
  entry_is_dir :: bool
  entry_has_build :: bool

definition startswith_dot :: "string \<Rightarrow> bool" where
  "startswith_dot s = (take 1 s = ''.'')"

text \<open>The loop of lines 47--55, with the set \<^verbatim>\<open>example_dirs\<close> as accumulator.\<close>

fun scan_examples :: "dir_entry list \<Rightarrow> string set \<Rightarrow> string set" where
  "scan_examples [] example_dirs = example_dirs"
| "scan_examples (p # ps) example_dirs =
     (if \<not> entry_is_dir p then scan_examples ps example_dirs
      else if startswith_dot (entry_name p) \<or> entry_name p = ''__pycache__''
        then scan_examples ps example_dirs
      else if entry_has_build p then scan_examples ps (insert (entry_name p) example_dirs)
      else scan_examples ps example_dirs)"

datatype audit_failure = NotTested "string list" | NonExistent "string list"

text \<open>
  Lines 57--70. Each \<^verbatim>\<open>AssertionError\<close> carries the list its message prints;
  \<^verbatim>\<open>sorted\<close> orders strings character by character, as the order on \<open>string\<close> does.
\<close>

definition tearDownClass :: "dir_entry list \<Rightarrow> string set \<Rightarrow> audit_failure + unit" where
  "tearDownClass listing tested_examples =
     (let example_dirs = scan_examples listing {};
          untested = example_dirs - tested_examples
      in if untested \<noteq> {} then Inl (NotTested (sorted_list_of_set untested))
         else (let non_existent = tested_examples - example_dirs
               in if non_existent \<noteq> {}
                  then Inl (NonExistent (sorted_list_of_set non_existent))
                  else Inr ()))"

section \<open>The lock: runs of several threads\<close>

text \<open>
  \<^verbatim>\<open>_test_lock\<close> is a \<^verbatim>\<open>threading.Lock\<close>: \<^verbatim>\<open>with\<close> acquires it, which blocks while
  another thread holds it, and releases it on every way out of the block. A thread that calls
  \<^verbatim>\<open>_run_flask_target\<close> several times performs the events of its calls one after the
  other. A scheduler picks the thread that moves next; a thread that has finished, or that
  waits for the lock, does not move.
\<close>

type_synonym tid = nat

record sched_state =
  lock_holder :: "tid option"
  pending :: "tid \<Rightarrow> event list"

definition thread_step :: "sched_state \<Rightarrow> tid \<Rightarrow> sched_state \<times> (tid \<times> event) list" where
  "thread_step s t =
     (case pending s t of
        [] \<Rightarrow> (s, [])
      | ev # rest \<Rightarrow>
          if ev = LockAcquire then
            (if lock_holder s = None
             then (s\<lparr>lock_holder := Some t, pending := (pending s)(t := rest)\<rparr>, [(t, ev)])
             else (s, []))
          else if ev = LockRelease then
            (s\<lparr>lock_holder := None, pending := (pending s)(t := rest)\<rparr>, [(t, ev)])
          else (s\<lparr>pending := (pending s)(t := rest)\<rparr>, [(t, ev)]))"

fun interleave :: "sched_state \<Rightarrow> tid list \<Rightarrow> (tid \<times> event) list" where
  "interleave s [] = []"
| "interleave s (t # sched) =
     (case thread_step s t of (s', out) \<Rightarrow> out @ interleave s' sched)"

definition thread_program :: "(world \<times> string \<times> string) list \<Rightarrow> event list" where
  "thread_program calls =
     concat (map (\<lambda>(w, example, target). events (run_flask_target w example target {})) calls)"

definition initial_state :: "(tid \<Rightarrow> (world \<times> string \<times> string) list) \<Rightarrow> sched_state" where
  "initial_state calls = \<lparr>lock_holder = None, pending = (\<lambda>t. thread_program (calls t))\<rparr>"

text \<open>
  \<open>bracketed inside evs\<close>: in the events of one thread, every event other than taking the
  lock happens between taking and releasing it. \<open>exclusive h tr\<close>: in an interleaved trace
  that starts with the lock in state \<open>h\<close>, the lock is taken only when it is free, and
  every other event is an event of the thread that holds it.
\<close>

fun bracketed :: "bool \<Rightarrow> event list \<Rightarrow> bool" where
  "bracketed inside [] = (\<not> inside)"
| "bracketed inside (ev # rest) =
     (if ev = LockAcquire then \<not> inside \<and> bracketed True rest
      else if ev = LockRelease then inside \<and> bracketed False rest
      else inside \<and> bracketed inside rest)"

fun exclusive :: "tid option \<Rightarrow> (tid \<times> event) list \<Rightarrow> bool" where
  "exclusive h [] = True"
| "exclusive h ((t, ev) # rest) =
     (if ev = LockAcquire then h = None \<and> exclusive (Some t) rest
      else if ev = LockRelease then h = Some t \<and> exclusive None rest
      else h = Some t \<and> exclusive h rest)"

section \<open>examples/rules\_venv/flask\_hello\_world.py\<close>

text \<open>The handler of the route \<^verbatim>\<open>"/"\<close>: it takes no argument and reads no state.\<close>

definition hello_world :: string where
  "hello_world = ''hello world!''"

text \<open>
  \<^verbatim>\<open>os.environ.get("FLASK_RUN_PORT", 5000)\<close> is the string of the variable or the integer
  5000; \<^verbatim>\<open>int\<close> leaves an integer as it is and parses a string. The builtin's parser of
  strings is a parameter \<open>parse\<close>, with \<open>None\<close> where it raises \<^verbatim>\<open>ValueError\<close>.
\<close>

datatype py_value = PyStr string | PyInt int

datatype app_error = ValueError string

definition environ_get :: "(string \<rightharpoonup> string) \<Rightarrow> string \<Rightarrow> py_value \<Rightarrow> py_value" where
  "environ_get environ key dflt = (case environ key of None \<Rightarrow> dflt | Some v \<Rightarrow> PyStr v)"

fun py_int :: "(string \<Rightarrow> int option) \<Rightarrow> py_value \<Rightarrow> app_error + int" where
  "py_int parse (PyInt n) = Inr n"
| "py_int parse (PyStr s) = (case parse s of None \<Rightarrow> Inl (ValueError s) | Some n \<Rightarrow> Inr n)"

definition main_port :: "(string \<Rightarrow> int option) \<Rightarrow> (string \<rightharpoonup> string) \<Rightarrow> app_error + int" where
  "main_port parse environ = py_int parse (environ_get environ ''FLASK_RUN_PORT'' (PyInt 5000))"

section \<open>Concrete inputs\<close>

definition missing_dir_world :: world where
  "missing_dir_world =
     \<lparr>dir_exists = False, free_port = 40123, startup_flags = None, poll_result = None,
      fetch = (\<lambda>i. Fetched ''hello world!''), wait_expired = False\<rparr>"

definition crashed_world :: world where
  "crashed_world =
     \<lparr>dir_exists = True, free_port = 40123, startup_flags = None, poll_result = Some 1,
      fetch = (\<lambda>i. Fetched ''hello world!''), wait_expired = False\<rparr>"

definition refusing_world :: world where
  "refusing_world =
     \<lparr>dir_exists = True, free_port = 40123, startup_flags = None, poll_result = None,
      fetch = (\<lambda>i. URLError_raised ''refused''), wait_expired = True\<rparr>"

definition ready_world :: world where
  "ready_world =
     \<lparr>dir_exists = True, free_port = 40123, startup_flags = Some [''--batch''],
      poll_result = None,
      fetch = (\<lambda>i. if i < 2 then URLError_raised ''refused'' else Fetched ''hello world!''),
      wait_expired = False\<rparr>"

definition goodbye_world :: world where
  "goodbye_world =
     \<lparr>dir_exists = True, free_port = 40123, startup_flags = None, poll_result = None,
      fetch = (\<lambda>i. Fetched ''goodbye world''), wait_expired = False\<rparr>"

definition error_status_world :: world where
  "error_status_world =
     \<lparr>dir_exists = True, free_port = 40123, startup_flags = None, poll_result = None,
      fetch = (\<lambda>i. if i = 0 then HTTPError_raised ''HTTP Error 503: Service Unavailable''
                    else Fetched ''hello world!''),
      wait_expired = False\<rparr>"

definition timeout_world :: world where
  "timeout_world =
     \<lparr>dir_exists = True, free_port = 40123, startup_flags = None, poll_result = None,
      fetch = (\<lambda>i. Other_raised ''timed out''), wait_expired = False\<rparr>"

definition not_found_world :: world where
  "not_found_world =
     \<lparr>dir_exists = True, free_port = 40123, startup_flags = None, poll_result = None,
      fetch = (\<lambda>i. HTTPError_raised ''HTTP Error 404: NOT FOUND''), wait_expired = False\<rparr>"





text \<open>Directory listings: \<open>on_disk_A\<close> holds one example, \<open>on_disk_AB\<close> two.\<close>

definition on_disk_A :: "dir_entry list" where
  "on_disk_A =
     [\<lparr>entry_name = ''A'', entry_is_dir = True, entry_has_build = True\<rparr>,
      \<lparr>entry_name = ''__pycache__'', entry_is_dir = True, entry_has_build = True\<rparr>,
      \<lparr>entry_name = ''.cache'', entry_is_dir = True, entry_has_build = True\<rparr>,
      \<lparr>entry_name = ''docs'', entry_is_dir = True, entry_has_build = False\<rparr>,
      \<lparr>entry_name = ''examples_test.py'', entry_is_dir = False, entry_has_build = False\<rparr>]"

definition on_disk_AB :: "dir_entry list" where
  "on_disk_AB = on_disk_A @ [\<lparr>entry_name = ''B'', entry_is_dir = True, entry_has_build = True\<rparr>]"

text \<open>
  Two threads that each call \<^verbatim>\<open>_run_flask_target\<close> once, and a schedule that lets them
  move in turn.
\<close>

definition two_callers :: "tid \<Rightarrow> (world \<times> string \<times> string) list" where
  "two_callers t =
     (if t = 0 then [(crashed_world, ''rules_venv'', ''//:flask_hello_world.pex'')]
      else if t = 1 then [(missing_dir_world, ''rules_python'', ''//:flask_hello_world.scie'')]
      else [])"

definition in_turn :: "tid list" where
  "in_turn = [0, 1, 0, 1, 0, 1, 0, 1, 0, 1, 0, 1, 0, 1, 0, 1, 0, 1, 0, 1, 0, 1, 0, 1, 1, 1]"

text \<open>
  A parser for the witness of the application: it reads a non-empty string of ASCII digits
  as \<^verbatim>\<open>int\<close> does and rejects every other string.
\<close>

fun digits_value :: "string \<Rightarrow> nat \<Rightarrow> nat option" where
  "digits_value [] acc = Some acc"
| "digits_value (c # cs) acc =
     (if CHR ''0'' \<le> c \<and> c \<le> CHR ''9''
      then digits_value cs (10 * acc + (of_char c - 48))
      else None)"

definition parse_digits :: "string \<Rightarrow> int option" where
  "parse_digits s = (if s = [] then None else map_option int (digits_value s 0))"

section \<open>Properties of one run\<close>

subsection \<open>The polling loop\<close>

lemma poll_loop_events:
  "poll_loop w port idx logs = (ex, logs', evs) \<Longrightarrow> set evs \<subseteq> {Urlopen port, Sleep 5}"
proof (induction idx arbitrary: logs ex logs' evs)
  case Nil
  then show ?case by simp
next
  case (Cons i rest)
  show ?case
  proof (cases "fetch w i")
    case (Fetched c)
    with Cons.prems show ?thesis by (auto split: if_splits)
  next
    case (HTTPError_raised m)
    with Cons.prems obtain evs' where
      "poll_loop w port rest (logs @ [m]) = (ex, logs', evs')"
      "evs = Urlopen port # pause_before_retry i @ evs'"
      by (auto split: prod.splits)
    with Cons.IH show ?thesis by (auto simp: pause_before_retry_def)
  next
    case (URLError_raised m)
    with Cons.prems obtain evs' where
      "poll_loop w port rest (logs @ [m]) = (ex, logs', evs')"
      "evs = Urlopen port # pause_before_retry i @ evs'"
      by (auto split: prod.splits)
    with Cons.IH show ?thesis by (auto simp: pause_before_retry_def)
  next
    case (Other_raised m)
    with Cons.prems show ?thesis by auto
  qed
qed

lemma poll_loop_retry_prefix:
  "\<forall>i \<in> set pre. retryable (fetch w i) \<Longrightarrow>
   poll_loop w port (pre @ rest) logs =
     (case poll_loop w port rest (logs @ map (\<lambda>i. error_text (fetch w i)) pre) of
        (ex, logs', evs) \<Rightarrow> (ex, logs', concat (map (failed_attempt port) pre) @ evs))"
proof (induction pre arbitrary: logs)
  case Nil
  then show ?case by (simp split: prod.splits)
next
  case (Cons i pre)
  then have r: "retryable (fetch w i)" and rs: "\<forall>j \<in> set pre. retryable (fetch w j)"
    by simp_all
  show ?case
  proof (cases "fetch w i")
    case (HTTPError_raised m)
    then show ?thesis using Cons.IH[OF rs, of "logs @ [m]"]
      by (simp add: failed_attempt_def split: prod.splits)
  next
    case (URLError_raised m)
    then show ?thesis using Cons.IH[OF rs, of "logs @ [m]"]
      by (simp add: failed_attempt_def split: prod.splits)
  qed (use r in simp_all)
qed

lemma poll_loop_all_retry:
  assumes "\<forall>i \<in> set idx. retryable (fetch w i)"
  shows "poll_loop w port idx logs =
           (Exhausted, logs @ map (\<lambda>i. error_text (fetch w i)) idx,
            concat (map (failed_attempt port) idx))"
  using poll_loop_retry_prefix[OF assms, of port "[]" logs] by simp

lemma poll_loop_exhausted:
  "poll_loop w port idx logs = (Exhausted, logs', evs) \<Longrightarrow>
   (\<forall>i \<in> set idx. retryable (fetch w i)) \<and> logs' = logs @ map (\<lambda>i. error_text (fetch w i)) idx"
proof (induction idx arbitrary: logs evs)
  case Nil
  then show ?case by simp
next
  case (Cons i rest)
  show ?case
  proof (cases "fetch w i")
    case (HTTPError_raised m)
    with Cons.prems obtain evs' where "poll_loop w port rest (logs @ [m]) = (Exhausted, logs', evs')"
      by (auto split: prod.splits)
    from Cons.IH[OF this] HTTPError_raised show ?thesis by simp
  next
    case (URLError_raised m)
    with Cons.prems obtain evs' where "poll_loop w port rest (logs @ [m]) = (Exhausted, logs', evs')"
      by (auto split: prod.splits)
    from Cons.IH[OF this] URLError_raised show ?thesis by simp
  qed (use Cons.prems in \<open>auto split: if_splits\<close>)
qed

lemma indices_split:
  "k \<le> max_tries \<Longrightarrow> py_range (max_tries + 1) = py_range k @ k # [Suc k..<Suc max_tries]"
  using upt_add_eq_append[of 0 k "Suc max_tries - k"] unfolding py_range_def
  by (simp add: upt_conv_Cons del: upt_Suc)

lemma poll_loop_first_response:
  assumes "k \<le> max_tries" "\<forall>j<k. retryable (fetch w j)" "fetch w k = Fetched c"
  shows "poll_loop w port (py_range (max_tries + 1)) [] =
           (if c = ''hello world!'' then Returned else Raised (ContentMismatch c),
            map (\<lambda>i. error_text (fetch w i)) (py_range k),
            concat (map (failed_attempt port) (py_range k)) @ [Urlopen port])"
proof -
  let ?rest = "[Suc k..<Suc max_tries]"
  have r: "\<forall>j \<in> set (py_range k). retryable (fetch w j)"
    using assms(2) by (simp add: py_range_def)
  have "poll_loop w port (py_range (max_tries + 1)) [] =
        poll_loop w port (py_range k @ k # ?rest) []"
    by (simp only: indices_split[OF assms(1)])
  also have "\<dots> =
      (case poll_loop w port (k # ?rest) ([] @ map (\<lambda>i. error_text (fetch w i)) (py_range k)) of
         (ex, logs', evs) \<Rightarrow> (ex, logs', concat (map (failed_attempt port) (py_range k)) @ evs))"
    by (rule poll_loop_retry_prefix[OF r])
  also have "\<dots> =
      (if c = ''hello world!'' then Returned else Raised (ContentMismatch c),
       map (\<lambda>i. error_text (fetch w i)) (py_range k),
       concat (map (failed_attempt port) (py_range k)) @ [Urlopen port])"
    using assms(3) by (simp del: upt_Suc)
  finally show ?thesis .
qed

lemma run_polling:
  assumes "dir_exists w" "poll_result w = None"
    and "poll_loop w (free_port w) (py_range (max_tries + 1)) [] = (ex, logs, evs)"
  shows "run_flask_target w example target tested =
           (case ex of Returned \<Rightarrow> Inr () | Raised f \<Rightarrow> Inl f | Exhausted \<Rightarrow> Inl (Unreachable logs),
            insert example tested,
            launch_events w example target @ Poll # evs @ cleanup w @ [LockRelease])"
  using assms
  by (simp add: run_flask_target_def locked_body_def guarded_body_def launch_events_def Let_def
      split: loop_exit.splits)

lemma run_all_fail:
  assumes "dir_exists w" "poll_result w = None" "\<forall>i\<le>max_tries. retryable (fetch w i)"
  shows "run_flask_target w example target tested =
           (Inl (Unreachable (map (\<lambda>i. error_text (fetch w i)) (py_range (max_tries + 1)))),
            insert example tested,
            launch_events w example target @ Poll #
              concat (map (failed_attempt (free_port w)) (py_range (max_tries + 1))) @
              cleanup w @ [LockRelease])"
proof -
  have "\<forall>i \<in> set (py_range (max_tries + 1)). retryable (fetch w i)"
    using assms(3) by (simp add: py_range_def)
  from poll_loop_all_retry[OF this, of "free_port w" "[]"]
  show ?thesis using run_polling[OF assms(1,2)] by simp
qed

lemma run_first_response:
  assumes "dir_exists w" "poll_result w = None"
    and "k \<le> max_tries" "\<forall>j<k. retryable (fetch w j)" "fetch w k = Fetched c"
  shows "run_flask_target w example target tested =
           (if c = ''hello world!'' then Inr () else Inl (ContentMismatch c),
            insert example tested,
            launch_events w example target @ Poll #
              (concat (map (failed_attempt (free_port w)) (py_range k)) @ [Urlopen (free_port w)]) @
              cleanup w @ [LockRelease])"
  using run_polling[OF assms(1,2) poll_loop_first_response[OF assms(3,4,5)]]
  by (simp split: if_splits)

lemma run_launched:
  assumes "dir_exists w"
  shows "\<exists>mid. events (run_flask_target w example target tested) =
                 launch_events w example target @ Poll # mid @ cleanup w @ [LockRelease]
               \<and> set mid \<subseteq> {Urlopen (free_port w), Sleep 5}"
proof (cases "poll_result w")
  case (Some code)
  with assms show ?thesis
    by (simp add: run_flask_target_def locked_body_def guarded_body_def launch_events_def
        events_def Let_def)
next
  case None
  obtain ex logs evs where pl: "poll_loop w (free_port w) (py_range (max_tries + 1)) [] = (ex, logs, evs)"
    by (cases "poll_loop w (free_port w) (py_range (max_tries + 1)) []") auto
  from run_polling[OF assms None pl] poll_loop_events[OF pl]
  show ?thesis by (auto simp: events_def)
qed

lemma http_attempts_append: "http_attempts (xs @ ys) = http_attempts xs + http_attempts ys"
  by (simp add: http_attempts_def)

lemma http_attempts_failed: "http_attempts (concat (map (failed_attempt port) idx)) = length idx"
  by (induction idx) (simp_all add: http_attempts_def failed_attempt_def pause_before_retry_def)

subsection \<open>The claims about one run\<close>

lemma poll_loop_starts_with_request:
  "poll_loop w port (i # rest) logs = (ex, logs', evs) \<Longrightarrow> \<exists>evs'. evs = Urlopen port # evs'"
  by (cases "fetch w i") (auto split: if_splits prod.splits)

lemma poll_loop_raised:
  "poll_loop w port idx logs = (Raised f, logs', evs) \<Longrightarrow> unreachable_log (Inl f) = None"
proof (induction idx arbitrary: logs evs)
  case Nil
  then show ?case by simp
next
  case (Cons i rest)
  show ?case
  proof (cases "fetch w i")
    case (HTTPError_raised m)
    with Cons.prems obtain evs' where "poll_loop w port rest (logs @ [m]) = (Raised f, logs', evs')"
      by (auto split: prod.splits)
    from Cons.IH[OF this] show ?thesis .
  next
    case (URLError_raised m)
    with Cons.prems obtain evs' where "poll_loop w port rest (logs @ [m]) = (Raised f, logs', evs')"
      by (auto split: prod.splits)
    from Cons.IH[OF this] show ?thesis .
  qed (use Cons.prems in \<open>auto simp: unreachable_log_def split: if_splits\<close>)
qed

lemma run_unreachable:
  assumes "dir_exists w" "poll_result w = None"
    and "verdict (run_flask_target w example target tested) = Inl (Unreachable logs)"
  shows "logs = map (\<lambda>i. error_text (fetch w i)) (py_range (max_tries + 1))"
proof -
  obtain ex logs' evs where
    pl: "poll_loop w (free_port w) (py_range (max_tries + 1)) [] = (ex, logs', evs)"
    by (cases "poll_loop w (free_port w) (py_range (max_tries + 1)) []") auto
  from run_polling[OF assms(1,2) pl, of example target tested] assms(3)
  have v: "(case ex of Returned \<Rightarrow> Inr () | Raised f \<Rightarrow> Inl f | Exhausted \<Rightarrow> Inl (Unreachable logs'))
             = Inl (Unreachable logs)"
    by (simp add: verdict_def)
  have "ex = Exhausted \<and> logs' = logs"
  proof (cases ex)
    case (Raised f)
    with poll_loop_raised pl have "unreachable_log (Inl f) = None" by blast
    with v Raised show ?thesis by (simp add: unreachable_log_def)
  qed (use v in simp_all)
  with poll_loop_exhausted[of w "free_port w" "py_range (max_tries + 1)" "[]" logs evs] pl
  show ?thesis by simp
qed

lemma run_retry:
  assumes "dir_exists w" "poll_result w = None"
    and "k < max_tries" "\<forall>j\<le>k. retryable (fetch w j)"
  shows "prefix (launch_events w example target @ Poll #
                   concat (map (failed_attempt (free_port w)) (py_range (Suc k))) @
                   [Urlopen (free_port w)])
                (events (run_flask_target w example target tested))"
proof -
  let ?port = "free_port w"
  let ?rest = "[Suc (Suc k)..<Suc max_tries]"
  let ?logs = "map (\<lambda>i. error_text (fetch w i)) (py_range (Suc k))"
  have r: "\<forall>j \<in> set (py_range (Suc k)). retryable (fetch w j)"
    using assms(4) by (auto simp: py_range_def)
  obtain ex logs' evs where
    tl: "poll_loop w ?port (Suc k # ?rest) ([] @ ?logs) = (ex, logs', evs)"
    by (cases "poll_loop w ?port (Suc k # ?rest) ([] @ ?logs)") auto
  from poll_loop_starts_with_request[OF tl] obtain evs' where evs: "evs = Urlopen ?port # evs'"
    by blast
  have "Suc k \<le> max_tries" using assms(3) by simp
  from indices_split[OF this]
  have "poll_loop w ?port (py_range (max_tries + 1)) [] =
        poll_loop w ?port (py_range (Suc k) @ Suc k # ?rest) []"
    by (simp only:)
  also have "\<dots> = (ex, logs', concat (map (failed_attempt ?port) (py_range (Suc k))) @ evs)"
    using poll_loop_retry_prefix[OF r, of ?port "Suc k # ?rest" "[]"] tl by (simp only: prod.case)
  finally have "events (run_flask_target w example target tested) =
      launch_events w example target @ Poll #
        (concat (map (failed_attempt ?port) (py_range (Suc k))) @ evs) @ cleanup w @ [LockRelease]"
    using run_polling[OF assms(1,2), of ex logs' _ example target tested]
    by (simp add: events_def)
  then show ?thesis by (simp add: evs prefix_def)
qed

lemma attempts_of_run:
  "http_attempts (launch_events w example target @ Poll # mid @ cleanup w @ [LockRelease])
     = http_attempts mid"
  by (simp add: http_attempts_def launch_events_def cleanup_def)

lemma attempts_first_response:
  "http_attempts (launch_events w example target @ Poll #
       (concat (map (failed_attempt port) idx) @ [Urlopen port]) @ cleanup w @ [LockRelease])
     = length idx + 1"
proof -
  have "http_attempts (launch_events w example target @ Poll #
       (concat (map (failed_attempt port) idx) @ [Urlopen port]) @ cleanup w @ [LockRelease])
     = http_attempts (concat (map (failed_attempt port) idx) @ [Urlopen port])"
    by (rule attempts_of_run)
  also have "\<dots> = http_attempts (concat (map (failed_attempt port) idx)) + http_attempts [Urlopen port]"
    by (rule http_attempts_append)
  also have "\<dots> = length idx + 1"
    by (simp add: http_attempts_failed) (simp add: http_attempts_def)
  finally show ?thesis .
qed

lemma launch_events_no_poll: "Poll \<notin> set (launch_events w example target)"
  by (simp add: launch_events_def)

lemma cleanup_cases:
  "cleanup w = (if wait_expired w then [Terminate, Wait (Some 5), Kill, Wait None, Sleep 1]
                else [Terminate, Wait (Some 5), Sleep 1])"
  by (simp add: cleanup_def)

lemma count_list_outside: "set xs \<subseteq> A \<Longrightarrow> x \<notin> A \<Longrightarrow> count_list xs x = 0"
  by (induction xs) auto

lemma filter_outside: "set xs \<subseteq> A \<Longrightarrow> \<forall>x\<in>A. \<not> P x \<Longrightarrow> filter P xs = []"
  by (induction xs) auto

text \<open>
  C4. In every run that launches the process, the events up to the first status poll are
  exactly those of the launch, which end with \<open>Popen\<close>, and the trace holds one status
  poll. If that poll returns an exit code, the run fails with the premature-exit condition
  carrying the code, and after the poll only the cleanup follows: no request is issued.
\<close>

theorem premature_exit:
  assumes "dir_exists w"
  shows "status_polls (events (run_flask_target w example target tested)) = 1
       \<and> takeWhile (\<lambda>ev. ev \<noteq> Poll) (events (run_flask_target w example target tested))
           = launch_events w example target
       \<and> last (launch_events w example target) = Popen (launch_cmd w target) example (free_port w)
       \<and> (\<forall>code. poll_result w = Some code \<longrightarrow>
             verdict (run_flask_target w example target tested)
               = Inl (PrematureExit code (free_port w))
           \<and> http_attempts (events (run_flask_target w example target tested)) = 0
           \<and> events (run_flask_target w example target tested)
               = launch_events w example target @ Poll # cleanup w @ [LockRelease])"
proof -
  from run_launched[OF assms, of example target tested] obtain mid where
    ev: "events (run_flask_target w example target tested) =
           launch_events w example target @ Poll # mid @ cleanup w @ [LockRelease]"
    and mid: "set mid \<subseteq> {Urlopen (free_port w), Sleep 5}"
    by blast
  have "count_list mid Poll = 0"
    by (rule count_list_outside[OF mid]) simp
  then have "status_polls (events (run_flask_target w example target tested)) = 1"
    by (simp add: ev status_polls_def launch_events_def cleanup_def)
  moreover have "takeWhile (\<lambda>ev. ev \<noteq> Poll) (events (run_flask_target w example target tested))
           = launch_events w example target"
    unfolding ev using launch_events_no_poll[of w example target]
    by (subst takeWhile_append2) auto
  moreover have "last (launch_events w example target)
      = Popen (launch_cmd w target) example (free_port w)"
    by (simp add: launch_events_def)
  moreover have "\<forall>code. poll_result w = Some code \<longrightarrow>
             verdict (run_flask_target w example target tested)
               = Inl (PrematureExit code (free_port w))
           \<and> http_attempts (events (run_flask_target w example target tested)) = 0
           \<and> events (run_flask_target w example target tested)
               = launch_events w example target @ Poll # cleanup w @ [LockRelease]"
    using assms
    by (simp add: run_flask_target_def locked_body_def guarded_body_def launch_events_def
        verdict_def events_def http_attempts_def cleanup_def Let_def)
  ultimately show ?thesis by blast
qed

text \<open>A process that has exited with code 1 by the time it is polled.\<close>

theorem premature_exit_witness:
  "dir_exists crashed_world \<and> poll_result crashed_world = Some 1
   \<and> verdict (run_flask_target crashed_world ''rules_venv'' ''//:flask_hello_world.pex'' {})
       = Inl (PrematureExit 1 40123)
   \<and> status_polls (events (run_flask_target crashed_world ''rules_venv'' ''//:flask_hello_world.pex'' {})) = 1
   \<and> http_attempts (events (run_flask_target crashed_world ''rules_venv'' ''//:flask_hello_world.pex'' {})) = 0"
proof -
  have h: "dir_exists crashed_world" and p: "poll_result crashed_world = Some 1"
    and f: "free_port crashed_world = 40123"
    by (simp_all add: crashed_world_def)
  note P = premature_exit[OF h, of "''rules_venv''" "''//:flask_hello_world.pex''" "{}"]
  note Q = P[THEN conjunct2, THEN conjunct2, THEN conjunct2, rule_format, OF p]
  from Q[THEN conjunct1] Q[THEN conjunct2, THEN conjunct1] P[THEN conjunct1] h p f
  show ?thesis by simp
qed

text \<open>
  C5, as the code has it. Every run that launches the process ends with the cleanup and the
  release of the lock, whatever the verdict. The cleanup is: terminate, wait with a timeout
  of 5 seconds; only if that wait times out, kill and wait without a timeout; then sleep
  1 second. The process is launched once and terminated once.
\<close>

theorem cleanup_on_every_exit:
  assumes "dir_exists w"
  shows "suffix (cleanup w @ [LockRelease]) (events (run_flask_target w example target tested))
       \<and> cleanup w = (if wait_expired w
                       then [Terminate, Wait (Some 5), Kill, Wait None, Sleep 1]
                       else [Terminate, Wait (Some 5), Sleep 1])
       \<and> prefix (launch_events w example target) (events (run_flask_target w example target tested))
       \<and> launches (events (run_flask_target w example target tested)) = 1
       \<and> count_list (events (run_flask_target w example target tested)) Terminate = 1"
proof -
  from run_launched[OF assms, of example target tested] obtain mid where
    ev: "events (run_flask_target w example target tested) =
           launch_events w example target @ Poll # mid @ cleanup w @ [LockRelease]"
    and mid: "set mid \<subseteq> {Urlopen (free_port w), Sleep 5}"
    by blast
  have "suffix (cleanup w @ [LockRelease]) (events (run_flask_target w example target tested))"
    unfolding ev suffix_def by (intro exI[of _ "launch_events w example target @ Poll # mid"]) simp
  moreover have "prefix (launch_events w example target)
                   (events (run_flask_target w example target tested))"
    unfolding ev by simp
  moreover have "filter is_popen mid = []"
    by (rule filter_outside[OF mid]) simp
  then have "launches (events (run_flask_target w example target tested)) = 1"
    by (simp add: ev launches_def launch_events_def cleanup_def)
  moreover have "count_list mid Terminate = 0"
    by (rule count_list_outside[OF mid]) simp
  then have "count_list (events (run_flask_target w example target tested)) Terminate = 1"
    by (simp add: ev launch_events_def cleanup_def)
  ultimately show ?thesis using cleanup_cases[of w] by blast
qed

text \<open>
  The four ways out: success, content mismatch, premature exit and exhaustion (there the
  process ignores the termination request and is killed).
\<close>

theorem cleanup_on_every_exit_witness:
  "verdict (run_flask_target ready_world ''rules_venv'' ''//:flask_hello_world.pex'' {}) = Inr ()
   \<and> suffix [Terminate, Wait (Some 5), Sleep 1, LockRelease]
        (events (run_flask_target ready_world ''rules_venv'' ''//:flask_hello_world.pex'' {}))
   \<and> verdict (run_flask_target goodbye_world ''rules_venv'' ''//:flask_hello_world.pex'' {})
        = Inl (ContentMismatch ''goodbye world'')
   \<and> suffix [Terminate, Wait (Some 5), Sleep 1, LockRelease]
        (events (run_flask_target goodbye_world ''rules_venv'' ''//:flask_hello_world.pex'' {}))
   \<and> verdict (run_flask_target crashed_world ''rules_venv'' ''//:flask_hello_world.pex'' {})
        = Inl (PrematureExit 1 40123)
   \<and> suffix [Terminate, Wait (Some 5), Sleep 1, LockRelease]
        (events (run_flask_target crashed_world ''rules_venv'' ''//:flask_hello_world.pex'' {}))
   \<and> verdict (run_flask_target refusing_world ''rules_venv'' ''//:flask_hello_world.pex'' {})
        = Inl (Unreachable (replicate 31 ''refused''))
   \<and> suffix [Terminate, Wait (Some 5), Kill, Wait None, Sleep 1, LockRelease]
        (events (run_flask_target refusing_world ''rules_venv'' ''//:flask_hello_world.pex'' {}))"
proof -
  have r: "dir_exists ready_world" "poll_result ready_world = None" "2 \<le> max_tries"
    "\<forall>j<2. retryable (fetch ready_world j)" "fetch ready_world 2 = Fetched ''hello world!''"
    by (simp_all add: ready_world_def max_tries_def)
  have g: "dir_exists goodbye_world" "poll_result goodbye_world = None" "0 \<le> max_tries"
    "\<forall>j<0. retryable (fetch goodbye_world j)" "fetch goodbye_world 0 = Fetched ''goodbye world''"
    by (simp_all add: goodbye_world_def)
  have c: "dir_exists crashed_world"
    by (simp add: crashed_world_def)
  have x: "dir_exists refusing_world" "poll_result refusing_world = None"
    "\<forall>i\<le>max_tries. retryable (fetch refusing_world i)"
    by (simp_all add: refusing_world_def)
  have "verdict (run_flask_target ready_world ''rules_venv'' ''//:flask_hello_world.pex'' {}) = Inr ()"
    by (simp add: run_first_response[OF r] verdict_def)
  moreover have "verdict (run_flask_target goodbye_world ''rules_venv'' ''//:flask_hello_world.pex'' {})
        = Inl (ContentMismatch ''goodbye world'')"
    by (simp add: run_first_response[OF g] verdict_def)
  moreover have "verdict (run_flask_target crashed_world ''rules_venv'' ''//:flask_hello_world.pex'' {})
        = Inl (PrematureExit 1 40123)"
    by (simp add: run_flask_target_def locked_body_def guarded_body_def verdict_def crashed_world_def)
  moreover have "verdict (run_flask_target refusing_world ''rules_venv'' ''//:flask_hello_world.pex'' {})
        = Inl (Unreachable (replicate 31 ''refused''))"
    by (simp add: run_all_fail[OF x] verdict_def)
       (simp add: refusing_world_def py_range_def max_tries_def map_replicate_const)
  moreover have "cleanup ready_world @ [LockRelease] = [Terminate, Wait (Some 5), Sleep 1, LockRelease]"
    "cleanup goodbye_world @ [LockRelease] = [Terminate, Wait (Some 5), Sleep 1, LockRelease]"
    "cleanup crashed_world @ [LockRelease] = [Terminate, Wait (Some 5), Sleep 1, LockRelease]"
    "cleanup refusing_world @ [LockRelease]
       = [Terminate, Wait (Some 5), Kill, Wait None, Sleep 1, LockRelease]"
    by (simp_all add: cleanup_def ready_world_def goodbye_world_def crashed_world_def
        refusing_world_def)
  ultimately show ?thesis
    using cleanup_on_every_exit[OF r(1), of "''rules_venv''" "''//:flask_hello_world.pex''" "{}",
        THEN conjunct1]
      cleanup_on_every_exit[OF g(1), of "''rules_venv''" "''//:flask_hello_world.pex''" "{}",
        THEN conjunct1]
      cleanup_on_every_exit[OF c, of "''rules_venv''" "''//:flask_hello_world.pex''" "{}",
        THEN conjunct1]
      cleanup_on_every_exit[OF x(1), of "''rules_venv''" "''//:flask_hello_world.pex''" "{}",
        THEN conjunct1]
    by (simp only:)
qed

text \<open>
  C5 as stated fails where the process exits within the grace period: the run succeeds,
  and its trace holds no wait without a timeout.
\<close>

theorem wait_without_timeout_counterexample:
  "wait_expired ready_world = False
   \<and> verdict (run_flask_target ready_world ''rules_venv'' ''//:flask_hello_world.pex'' {}) = Inr ()
   \<and> Wait None \<notin> set (events (run_flask_target ready_world ''rules_venv'' ''//:flask_hello_world.pex'' {}))"
proof -
  have r: "dir_exists ready_world" "poll_result ready_world = None" "2 \<le> max_tries"
    "\<forall>j<2. retryable (fetch ready_world j)" "fetch ready_world 2 = Fetched ''hello world!''"
    by (simp_all add: ready_world_def max_tries_def)
  have "set (concat (map (failed_attempt (free_port ready_world)) (py_range 2)))
          \<subseteq> {Urlopen (free_port ready_world), Sleep 5}"
    by (auto simp: failed_attempt_def pause_before_retry_def)
  then have "Wait None \<notin> set (concat (map (failed_attempt (free_port ready_world)) (py_range 2)))"
    by blast
  moreover have "wait_expired ready_world = False"
    by (simp add: ready_world_def)
  ultimately show ?thesis
    by (simp add: run_first_response[OF r] verdict_def events_def launch_events_def cleanup_def)
qed

subsection \<open>How the polling loop can end\<close>

lemma poll_loop_stop:
  "poll_loop w port idx logs = (ex, logs', evs) \<Longrightarrow> ex \<noteq> Exhausted \<Longrightarrow>
   \<exists>pre k post. idx = pre @ k # post \<and> (\<forall>j\<in>set pre. retryable (fetch w j)) \<and>
     (case fetch w k of
        Fetched c \<Rightarrow> ex = (if c = ''hello world!'' then Returned else Raised (ContentMismatch c))
      | Other_raised m \<Rightarrow> ex = Raised (Propagated m)
      | _ \<Rightarrow> False)"
proof (induction idx arbitrary: logs evs)
  case Nil
  then show ?case by simp
next
  case (Cons i rest)
  show ?case
  proof (cases "fetch w i")
    case (Fetched c)
    with Cons.prems have "ex = (if c = ''hello world!'' then Returned else Raised (ContentMismatch c))"
      by (auto split: if_splits)
    with Fetched have "i # rest = [] @ i # rest \<and> (\<forall>j\<in>set []. retryable (fetch w j)) \<and>
       (case fetch w i of
          Fetched c \<Rightarrow> ex = (if c = ''hello world!'' then Returned else Raised (ContentMismatch c))
        | Other_raised m \<Rightarrow> ex = Raised (Propagated m)
        | _ \<Rightarrow> False)"
      by simp
    then show ?thesis by blast
  next
    case (Other_raised m)
    with Cons.prems have "ex = Raised (Propagated m)" by auto
    with Other_raised have "i # rest = [] @ i # rest \<and> (\<forall>j\<in>set []. retryable (fetch w j)) \<and>
       (case fetch w i of
          Fetched c \<Rightarrow> ex = (if c = ''hello world!'' then Returned else Raised (ContentMismatch c))
        | Other_raised m \<Rightarrow> ex = Raised (Propagated m)
        | _ \<Rightarrow> False)"
      by simp
    then show ?thesis by blast
  next
    case (HTTPError_raised m)
    with Cons.prems obtain evs' where "poll_loop w port rest (logs @ [m]) = (ex, logs', evs')"
      by (auto split: prod.splits)
    from Cons.IH[OF this Cons.prems(2)] obtain pre k post where
      d: "rest = pre @ k # post" "\<forall>j\<in>set pre. retryable (fetch w j)"
      "(case fetch w k of
          Fetched c \<Rightarrow> ex = (if c = ''hello world!'' then Returned else Raised (ContentMismatch c))
        | Other_raised m \<Rightarrow> ex = Raised (Propagated m)
        | _ \<Rightarrow> False)"
      by blast
    from d(1,2) HTTPError_raised have "i # rest = (i # pre) @ k # post"
      "\<forall>j\<in>set (i # pre). retryable (fetch w j)" by simp_all
    with d(3) show ?thesis by blast
  next
    case (URLError_raised m)
    with Cons.prems obtain evs' where "poll_loop w port rest (logs @ [m]) = (ex, logs', evs')"
      by (auto split: prod.splits)
    from Cons.IH[OF this Cons.prems(2)] obtain pre k post where
      d: "rest = pre @ k # post" "\<forall>j\<in>set pre. retryable (fetch w j)"
      "(case fetch w k of
          Fetched c \<Rightarrow> ex = (if c = ''hello world!'' then Returned else Raised (ContentMismatch c))
        | Other_raised m \<Rightarrow> ex = Raised (Propagated m)
        | _ \<Rightarrow> False)"
      by blast
    from d(1,2) URLError_raised have "i # rest = (i # pre) @ k # post"
      "\<forall>j\<in>set (i # pre). retryable (fetch w j)" by simp_all
    with d(3) show ?thesis by blast
  qed
qed

lemma range_decompose:
  assumes "py_range n = pre @ k # post"
  shows "k < n \<and> set pre = {j. j < k}"
proof -
  from assms have u: "[0..<n] = pre @ k # post" by (simp add: py_range_def)
  then have "length [0..<n] = length (pre @ k # post)" by simp
  then have l: "length pre < n" by simp
  from u have "[0..<n] ! length pre = k" by (simp add: nth_append)
  with l have k: "k = length pre" by simp
  from u have "take (length pre) [0..<n] = pre" by simp
  with l have "pre = [0..<length pre]" by (simp add: take_upt)
  then have "set pre = {j. j < length pre}" by (metis atLeast_upt lessThan_def)
  with k l show ?thesis by simp
qed

lemma run_stopped:
  assumes "dir_exists w" "poll_result w = None"
    and pl: "poll_loop w (free_port w) (py_range (max_tries + 1)) [] = (ex, logs, evs)"
    and ne: "ex \<noteq> Exhausted"
  shows "\<exists>k\<le>max_tries. (\<forall>j<k. retryable (fetch w j)) \<and>
     (case fetch w k of
        Fetched c \<Rightarrow> ex = (if c = ''hello world!'' then Returned else Raised (ContentMismatch c))
      | Other_raised m \<Rightarrow> ex = Raised (Propagated m)
      | _ \<Rightarrow> False)"
proof -
  from poll_loop_stop[OF pl ne] obtain pre k post where
    d: "py_range (max_tries + 1) = pre @ k # post" "\<forall>j\<in>set pre. retryable (fetch w j)"
      "(case fetch w k of
          Fetched c \<Rightarrow> ex = (if c = ''hello world!'' then Returned else Raised (ContentMismatch c))
        | Other_raised m \<Rightarrow> ex = Raised (Propagated m)
        | _ \<Rightarrow> False)"
    by blast
  from range_decompose[OF d(1)] d(2) have "k \<le> max_tries" "\<forall>j<k. retryable (fetch w j)"
    by auto
  with d(3) show ?thesis by blast
qed

lemma verdict_needs_polling:
  assumes "verdict (run_flask_target w example target tested) = v"
    and "v = Inr () \<or> (\<exists>b. v = Inl (ContentMismatch b))"
  shows "dir_exists w \<and> poll_result w = None"
proof -
  have "dir_exists w"
  proof (rule ccontr)
    assume "\<not> dir_exists w"
    then have "verdict (run_flask_target w example target tested) = Inl (TargetNotFound example)"
      by (simp add: run_flask_target_def locked_body_def verdict_def)
    with assms show False by auto
  qed
  moreover have "poll_result w = None"
  proof (cases "poll_result w")
    case (Some code)
    with \<open>dir_exists w\<close>
    have "verdict (run_flask_target w example target tested) = Inl (PrematureExit code (free_port w))"
      by (simp add: run_flask_target_def locked_body_def guarded_body_def verdict_def Let_def)
    with assms show ?thesis by auto
  qed simp
  ultimately show ?thesis by simp
qed

lemma run_success_only:
  assumes "verdict (run_flask_target w example target tested) = Inr ()"
  shows "\<exists>k\<le>max_tries. (\<forall>j<k. retryable (fetch w j)) \<and> fetch w k = Fetched ''hello world!''"
proof -
  from verdict_needs_polling[OF assms] have d: "dir_exists w" and p: "poll_result w = None"
    by simp_all
  obtain ex logs evs where
    pl: "poll_loop w (free_port w) (py_range (max_tries + 1)) [] = (ex, logs, evs)"
    by (cases "poll_loop w (free_port w) (py_range (max_tries + 1)) []") auto
  from run_polling[OF d p pl, of example target tested] assms
  have ex: "ex = Returned"
    by (cases ex) (simp_all add: verdict_def)
  then have "ex \<noteq> Exhausted" by simp
  from run_stopped[OF d p pl this] obtain k where
    k: "k \<le> max_tries" "\<forall>j<k. retryable (fetch w j)"
      "(case fetch w k of
          Fetched c \<Rightarrow> ex = (if c = ''hello world!'' then Returned else Raised (ContentMismatch c))
        | Other_raised m \<Rightarrow> ex = Raised (Propagated m)
        | _ \<Rightarrow> False)"
    by blast
  from k(3) ex have "fetch w k = Fetched ''hello world!''"
    by (cases "fetch w k") (simp_all split: if_splits)
  with k(1,2) show ?thesis by blast
qed

lemma run_mismatch_only:
  assumes "verdict (run_flask_target w example target tested) = Inl (ContentMismatch body)"
  shows "body \<noteq> ''hello world!'' \<and>
         (\<exists>k\<le>max_tries. (\<forall>j<k. retryable (fetch w j)) \<and> fetch w k = Fetched body)"
proof -
  from verdict_needs_polling[OF assms] have d: "dir_exists w" and p: "poll_result w = None"
    by simp_all
  obtain ex logs evs where
    pl: "poll_loop w (free_port w) (py_range (max_tries + 1)) [] = (ex, logs, evs)"
    by (cases "poll_loop w (free_port w) (py_range (max_tries + 1)) []") auto
  from run_polling[OF d p pl, of example target tested] assms
  have ex: "ex = Raised (ContentMismatch body)"
    by (cases ex) (simp_all add: verdict_def)
  then have "ex \<noteq> Exhausted" by simp
  from run_stopped[OF d p pl this] obtain k where
    k: "k \<le> max_tries" "\<forall>j<k. retryable (fetch w j)"
      "(case fetch w k of
          Fetched c \<Rightarrow> ex = (if c = ''hello world!'' then Returned else Raised (ContentMismatch c))
        | Other_raised m \<Rightarrow> ex = Raised (Propagated m)
        | _ \<Rightarrow> False)"
    by blast
  from k(3) ex have "fetch w k = Fetched body \<and> body \<noteq> ''hello world!''"
    by (cases "fetch w k") (simp_all split: if_splits)
  with k(1,2) show ?thesis by blast
qed

lemma poll_loop_first_other:
  assumes "k \<le> max_tries" "\<forall>j<k. retryable (fetch w j)" "fetch w k = Other_raised m"
  shows "poll_loop w port (py_range (max_tries + 1)) [] =
           (Raised (Propagated m),
            map (\<lambda>i. error_text (fetch w i)) (py_range k),
            concat (map (failed_attempt port) (py_range k)) @ [Urlopen port])"
proof -
  let ?rest = "[Suc k..<Suc max_tries]"
  have r: "\<forall>j \<in> set (py_range k). retryable (fetch w j)"
    using assms(2) by (simp add: py_range_def)
  have "poll_loop w port (py_range (max_tries + 1)) [] =
        poll_loop w port (py_range k @ k # ?rest) []"
    by (simp only: indices_split[OF assms(1)])
  also have "\<dots> =
      (case poll_loop w port (k # ?rest) ([] @ map (\<lambda>i. error_text (fetch w i)) (py_range k)) of
         (ex, logs', evs) \<Rightarrow> (ex, logs', concat (map (failed_attempt port) (py_range k)) @ evs))"
    by (rule poll_loop_retry_prefix[OF r])
  also have "\<dots> =
      (Raised (Propagated m),
       map (\<lambda>i. error_text (fetch w i)) (py_range k),
       concat (map (failed_attempt port) (py_range k)) @ [Urlopen port])"
    using assms(3) by (simp del: upt_Suc)
  finally show ?thesis .
qed

lemma run_first_other:
  assumes "dir_exists w" "poll_result w = None"
    and "k \<le> max_tries" "\<forall>j<k. retryable (fetch w j)" "fetch w k = Other_raised m"
  shows "run_flask_target w example target tested =
           (Inl (Propagated m),
            insert example tested,
            launch_events w example target @ Poll #
              (concat (map (failed_attempt (free_port w)) (py_range k)) @ [Urlopen (free_port w)]) @
              cleanup w @ [LockRelease])"
  using run_polling[OF assms(1,2) poll_loop_first_other[OF assms(3,4,5)]]
  by simp

lemma sleeps_of_failed_attempts:
  "count_list (concat (map (failed_attempt port) [0..<n])) (Sleep 5) = min n max_tries"
  by (induction n) (auto simp: failed_attempt_def pause_before_retry_def)

lemma sleeps_of_exhausted_run:
  "count_list (launch_events w example target @ Poll #
      concat (map (failed_attempt port) (py_range (max_tries + 1))) @ cleanup w @ [LockRelease])
     (Sleep 5) = max_tries"
  using sleeps_of_failed_attempts[of port "max_tries + 1"]
  by (simp add: launch_events_def cleanup_def py_range_def del: upt_Suc)


subsection \<open>The claims about the polling\<close>

text \<open>
  C1, as the code has it. The loop runs over \<^verbatim>\<open>range(max_tries + 1)\<close>, that is over the
  31 indices 0, ..., 30, and sleeps after a caught error only while \<^verbatim>\<open>i < max_tries\<close>.
  When every attempt raises an error that the \<^verbatim>\<open>except\<close> clause catches (a
  \<^verbatim>\<open>URLError\<close>, as for a refused connection, or an \<^verbatim>\<open>HTTPError\<close>), the run issues
  exactly 31 requests, sleeps 5 seconds after each of the first 30 and not after the last,
  and fails with the unreachable condition, whose log holds the 31 error texts in order.
  An attempt that raises any other exception (a timeout while the response is read, for
  instance) is not retried: the run ends there with that exception.
\<close>

theorem unreachable_after_all_attempts_fail:
  assumes "dir_exists w" "poll_result w = None"
  shows "((\<forall>i\<le>max_tries. retryable (fetch w i)) \<longrightarrow>
            http_attempts (events (run_flask_target w example target tested)) = 31
          \<and> verdict (run_flask_target w example target tested)
              = Inl (Unreachable (map (\<lambda>i. error_text (fetch w i)) (py_range 31)))
          \<and> map_option length (unreachable_log (verdict (run_flask_target w example target tested)))
              = Some 31
          \<and> events (run_flask_target w example target tested)
              = launch_events w example target @ Poll #
                  concat (map (failed_attempt (free_port w)) (py_range 31)) @
                  cleanup w @ [LockRelease]
          \<and> count_list (events (run_flask_target w example target tested)) (Sleep 5) = 30)
       \<and> (\<forall>i<30. failed_attempt (free_port w) i = [Urlopen (free_port w), Sleep 5])
       \<and> failed_attempt (free_port w) 30 = [Urlopen (free_port w)]
       \<and> (\<forall>k msg. k \<le> max_tries \<and> (\<forall>j<k. retryable (fetch w j)) \<and> fetch w k = Other_raised msg \<longrightarrow>
            verdict (run_flask_target w example target tested) = Inl (Propagated msg)
          \<and> http_attempts (events (run_flask_target w example target tested)) = k + 1)"
proof (intro conjI allI impI)
  assume a: "\<forall>i\<le>max_tries. retryable (fetch w i)"
  have n: "max_tries + 1 = 31" by (simp add: max_tries_def)
  note run = run_all_fail[OF assms a, of example target tested]
  show "http_attempts (events (run_flask_target w example target tested)) = 31"
    unfolding run events_def snd_conv attempts_of_run http_attempts_failed n
    by (simp add: py_range_def)
  show v: "verdict (run_flask_target w example target tested)
           = Inl (Unreachable (map (\<lambda>i. error_text (fetch w i)) (py_range 31)))"
    unfolding run verdict_def fst_conv n ..
  show "map_option length (unreachable_log (verdict (run_flask_target w example target tested)))
           = Some 31"
    by (simp add: v unreachable_log_def py_range_def)
  show "events (run_flask_target w example target tested)
           = launch_events w example target @ Poll #
               concat (map (failed_attempt (free_port w)) (py_range 31)) @
               cleanup w @ [LockRelease]"
    unfolding run events_def snd_conv n ..
  show "count_list (events (run_flask_target w example target tested)) (Sleep 5) = 30"
    unfolding run events_def snd_conv sleeps_of_exhausted_run
    by (simp add: max_tries_def)
next
  fix i :: nat
  assume "i < 30"
  then show "failed_attempt (free_port w) i = [Urlopen (free_port w), Sleep 5]"
    by (simp add: failed_attempt_def pause_before_retry_def max_tries_def)
next
  show "failed_attempt (free_port w) 30 = [Urlopen (free_port w)]"
    by (simp add: failed_attempt_def pause_before_retry_def max_tries_def)
next
  fix k msg
  assume a: "k \<le> max_tries \<and> (\<forall>j<k. retryable (fetch w j)) \<and> fetch w k = Other_raised msg"
  then have k: "k \<le> max_tries" "\<forall>j<k. retryable (fetch w j)" "fetch w k = Other_raised msg"
    by simp_all
  note run = run_first_other[OF assms k, of example target tested]
  show "verdict (run_flask_target w example target tested) = Inl (Propagated msg)"
    by (simp add: run verdict_def)
  show "http_attempts (events (run_flask_target w example target tested)) = k + 1"
    unfolding run events_def snd_conv attempts_first_response
    by (simp add: py_range_def)
qed

text \<open>
  A server that refuses every connection: 31 requests and 30 sleeps. A server that accepts
  the connection and never answers: one request.
\<close>

theorem unreachable_after_all_attempts_fail_witness:
  "dir_exists refusing_world \<and> poll_result refusing_world = None
   \<and> list_all (\<lambda>i. retryable (fetch refusing_world i)) (py_range 31)
   \<and> http_attempts (events (run_flask_target refusing_world ''rules_venv'' ''//:flask_hello_world.pex'' {})) = 31
   \<and> count_list (events (run_flask_target refusing_world ''rules_venv'' ''//:flask_hello_world.pex'' {}))
        (Sleep 5) = 30
   \<and> verdict (run_flask_target refusing_world ''rules_venv'' ''//:flask_hello_world.pex'' {})
       = Inl (Unreachable (replicate 31 ''refused''))
   \<and> verdict (run_flask_target timeout_world ''rules_venv'' ''//:flask_hello_world.pex'' {})
       = Inl (Propagated ''timed out'')
   \<and> http_attempts (events (run_flask_target timeout_world ''rules_venv'' ''//:flask_hello_world.pex'' {})) = 1"
proof -
  have h: "dir_exists refusing_world" "poll_result refusing_world = None"
    and a: "\<forall>i\<le>max_tries. retryable (fetch refusing_world i)"
    by (simp_all add: refusing_world_def)
  have t: "dir_exists timeout_world" "poll_result timeout_world = None"
    and o: "0 \<le> max_tries \<and> (\<forall>j<0. retryable (fetch timeout_world j))
            \<and> fetch timeout_world 0 = Other_raised ''timed out''"
    by (simp_all add: timeout_world_def)
  note R = unreachable_after_all_attempts_fail[OF h, of "''rules_venv''" "''//:flask_hello_world.pex''" "{}",
      THEN conjunct1, THEN mp, OF a]
  note T = unreachable_after_all_attempts_fail[OF t, of "''rules_venv''" "''//:flask_hello_world.pex''" "{}",
      THEN conjunct2, THEN conjunct2, THEN conjunct2, rule_format, OF o]
  have m: "map (\<lambda>i. error_text (fetch refusing_world i)) (py_range 31) = replicate 31 ''refused''"
    by (simp add: refusing_world_def py_range_def map_replicate_const)
  have l: "list_all (\<lambda>i. retryable (fetch refusing_world i)) (py_range 31)"
    by (simp add: refusing_world_def list_all_iff)
  from R[THEN conjunct1] R[THEN conjunct2, THEN conjunct1]
    R[THEN conjunct2, THEN conjunct2, THEN conjunct2, THEN conjunct2]
    T[THEN conjunct1] T[THEN conjunct2] h l
  show ?thesis by (simp add: m)
qed

text \<open>
  C1 as stated fails at the server that refuses every connection: the run issues 31
  requests, not 30. It fails also at the server that never answers, where every attempt
  would end in a timeout of the response: the run ends after one request, and not with
  the unreachable condition.
\<close>

theorem thirty_attempts_counterexample:
  "\<not> (http_attempts (events (run_flask_target refusing_world ''rules_venv'' ''//:flask_hello_world.pex'' {})) = 30
      \<and> map_option length (unreachable_log (verdict
           (run_flask_target refusing_world ''rules_venv'' ''//:flask_hello_world.pex'' {}))) = Some 30)
   \<and> http_attempts (events (run_flask_target refusing_world ''rules_venv'' ''//:flask_hello_world.pex'' {})) = 31
   \<and> http_attempts (events (run_flask_target timeout_world ''rules_venv'' ''//:flask_hello_world.pex'' {})) = 1
   \<and> unreachable_log (verdict (run_flask_target timeout_world ''rules_venv'' ''//:flask_hello_world.pex'' {}))
       = None"
proof -
  have h: "dir_exists refusing_world" "poll_result refusing_world = None"
    "\<forall>i\<le>max_tries. retryable (fetch refusing_world i)"
    by (simp_all add: refusing_world_def)
  have t: "dir_exists timeout_world" "poll_result timeout_world = None" "0 \<le> max_tries"
    "\<forall>j<0. retryable (fetch timeout_world j)" "fetch timeout_world 0 = Other_raised ''timed out''"
    by (simp_all add: timeout_world_def)
  have "http_attempts (events (run_flask_target refusing_world ''rules_venv'' ''//:flask_hello_world.pex'' {})) = 31"
    unfolding run_all_fail[OF h] events_def snd_conv attempts_of_run http_attempts_failed
    by (simp add: py_range_def max_tries_def)
  moreover
  have "http_attempts (events (run_flask_target timeout_world ''rules_venv'' ''//:flask_hello_world.pex'' {})) = 1"
    unfolding run_first_other[OF t] events_def snd_conv attempts_first_response
    by (simp add: py_range_def)
  moreover
  have "unreachable_log (verdict (run_flask_target timeout_world ''rules_venv'' ''//:flask_hello_world.pex'' {}))
       = None"
    by (simp add: run_first_other[OF t] verdict_def unreachable_log_def)
  ultimately show ?thesis by simp
qed

text \<open>
  C3, as the code has it. Let attempt \<open>k\<close> be the first attempt in which \<^verbatim>\<open>urlopen\<close>
  returns a response, every earlier attempt having raised an error that the
  \<^verbatim>\<open>except\<close> clause catches. If the body is \<^verbatim>\<open>hello world!\<close> the run succeeds, otherwise
  it fails with the content-mismatch condition. In both cases the requests are the \<open>k\<close>
  failed ones and this one, and the event after this request is the first event of the
  cleanup: no further attempt, no sleep. A connection that succeeds and brings a response
  with an error status is not such an attempt: \<^verbatim>\<open>urlopen\<close> raises \<^verbatim>\<open>HTTPError\<close> and the
  attempt is among the caught ones. Conversely, a run succeeds only when some attempt
  returned the body \<^verbatim>\<open>hello world!\<close>, and fails with content mismatch only when some
  attempt returned another body, each time after caught errors only.
\<close>

theorem first_response_decides:
  "(\<forall>k body. dir_exists w \<and> poll_result w = None \<and> k \<le> max_tries
        \<and> (\<forall>j<k. retryable (fetch w j)) \<and> fetch w k = Fetched body \<longrightarrow>
       verdict (run_flask_target w example target tested)
         = (if body = ''hello world!'' then Inr () else Inl (ContentMismatch body))
     \<and> http_attempts (events (run_flask_target w example target tested)) = k + 1
     \<and> events (run_flask_target w example target tested)
         = launch_events w example target @ Poll #
             (concat (map (failed_attempt (free_port w)) (py_range k)) @ [Urlopen (free_port w)]) @
             cleanup w @ [LockRelease])
   \<and> (verdict (run_flask_target w example target tested) = Inr () \<longrightarrow>
        (\<exists>k\<le>max_tries. (\<forall>j<k. retryable (fetch w j)) \<and> fetch w k = Fetched ''hello world!''
           \<and> http_attempts (events (run_flask_target w example target tested)) = k + 1))
   \<and> (\<forall>body. verdict (run_flask_target w example target tested) = Inl (ContentMismatch body) \<longrightarrow>
        body \<noteq> ''hello world!''
      \<and> (\<exists>k\<le>max_tries. (\<forall>j<k. retryable (fetch w j)) \<and> fetch w k = Fetched body
           \<and> http_attempts (events (run_flask_target w example target tested)) = k + 1))"
proof -
  have fwd: "verdict (run_flask_target w example target tested)
         = (if body = ''hello world!'' then Inr () else Inl (ContentMismatch body))
     \<and> http_attempts (events (run_flask_target w example target tested)) = k + 1
     \<and> events (run_flask_target w example target tested)
         = launch_events w example target @ Poll #
             (concat (map (failed_attempt (free_port w)) (py_range k)) @ [Urlopen (free_port w)]) @
             cleanup w @ [LockRelease]"
    if a: "dir_exists w" "poll_result w = None" "k \<le> max_tries"
      "\<forall>j<k. retryable (fetch w j)" "fetch w k = Fetched body" for k body
  proof -
    note run = run_first_response[OF a, of example target tested]
    have "http_attempts (events (run_flask_target w example target tested)) = k + 1"
      unfolding run events_def snd_conv attempts_first_response
      by (simp add: py_range_def)
    then show ?thesis
      by (simp add: run verdict_def events_def)
  qed
  have ok: "\<exists>k\<le>max_tries. (\<forall>j<k. retryable (fetch w j)) \<and> fetch w k = Fetched ''hello world!''
           \<and> http_attempts (events (run_flask_target w example target tested)) = k + 1"
    if v: "verdict (run_flask_target w example target tested) = Inr ()"
  proof -
    from verdict_needs_polling[OF v] have d: "dir_exists w" "poll_result w = None" by simp_all
    from run_success_only[OF v] obtain k where
      k: "k \<le> max_tries" "\<forall>j<k. retryable (fetch w j)" "fetch w k = Fetched ''hello world!''"
      by blast
    from fwd[OF d k] k show ?thesis by blast
  qed
  have bad: "body \<noteq> ''hello world!''
      \<and> (\<exists>k\<le>max_tries. (\<forall>j<k. retryable (fetch w j)) \<and> fetch w k = Fetched body
           \<and> http_attempts (events (run_flask_target w example target tested)) = k + 1)"
    if v: "verdict (run_flask_target w example target tested) = Inl (ContentMismatch body)" for body
  proof -
    from verdict_needs_polling[OF v] have d: "dir_exists w" "poll_result w = None" by simp_all
    from run_mismatch_only[OF v] obtain k where
      b: "body \<noteq> ''hello world!''"
      and k: "k \<le> max_tries" "\<forall>j<k. retryable (fetch w j)" "fetch w k = Fetched body"
      by blast
    from fwd[OF d k] k b show ?thesis by blast
  qed
  from fwd ok bad show ?thesis by blast
qed

text \<open>
  A server that answers \<^verbatim>\<open>goodbye world\<close> at once: one request, content mismatch. A
  server that refuses twice and then answers \<^verbatim>\<open>hello world!\<close>: three requests, success.
\<close>

theorem first_response_decides_witness:
  "verdict (run_flask_target goodbye_world ''rules_venv'' ''//:flask_hello_world.pex'' {})
     = Inl (ContentMismatch ''goodbye world'')
   \<and> http_attempts (events (run_flask_target goodbye_world ''rules_venv'' ''//:flask_hello_world.pex'' {})) = 1
   \<and> verdict (run_flask_target ready_world ''rules_venv'' ''//:flask_hello_world.pex'' {}) = Inr ()
   \<and> http_attempts (events (run_flask_target ready_world ''rules_venv'' ''//:flask_hello_world.pex'' {})) = 3"
proof -
  have g: "dir_exists goodbye_world \<and> poll_result goodbye_world = None \<and> 0 \<le> max_tries
    \<and> (\<forall>j<0. retryable (fetch goodbye_world j)) \<and> fetch goodbye_world 0 = Fetched ''goodbye world''"
    by (simp add: goodbye_world_def)
  have r: "dir_exists ready_world \<and> poll_result ready_world = None \<and> 2 \<le> max_tries
    \<and> (\<forall>j<2. retryable (fetch ready_world j)) \<and> fetch ready_world 2 = Fetched ''hello world!''"
    by (simp add: ready_world_def max_tries_def)
  note G = first_response_decides[of goodbye_world "''rules_venv''" "''//:flask_hello_world.pex''" "{}",
      THEN conjunct1, rule_format, OF g]
  note R = first_response_decides[of ready_world "''rules_venv''" "''//:flask_hello_world.pex''" "{}",
      THEN conjunct1, rule_format, OF r]
  from G[THEN conjunct1] G[THEN conjunct2, THEN conjunct1]
    R[THEN conjunct1] R[THEN conjunct2, THEN conjunct1]
  show ?thesis by simp
qed

text \<open>
  C3 as stated fails at a server that answers every request with status 404: the first
  connection succeeds, yet the run neither succeeds nor fails with content mismatch at
  that attempt, whatever the body of the response. It issues all 31 requests and fails
  with the unreachable condition.
\<close>

theorem error_status_not_decisive_counterexample:
  "fetch not_found_world 0 = HTTPError_raised ''HTTP Error 404: NOT FOUND''
   \<and> http_attempts (events (run_flask_target not_found_world ''rules_venv'' ''//:flask_hello_world.pex'' {})) = 31
   \<and> http_attempts (events (run_flask_target not_found_world ''rules_venv'' ''//:flask_hello_world.pex'' {})) \<noteq> 1
   \<and> verdict (run_flask_target not_found_world ''rules_venv'' ''//:flask_hello_world.pex'' {})
       = Inl (Unreachable (replicate 31 ''HTTP Error 404: NOT FOUND''))"
proof -
  have h: "dir_exists not_found_world" "poll_result not_found_world = None"
    "\<forall>i\<le>max_tries. retryable (fetch not_found_world i)"
    by (simp_all add: not_found_world_def)
  have "http_attempts (events (run_flask_target not_found_world ''rules_venv'' ''//:flask_hello_world.pex'' {})) = 31"
    unfolding run_all_fail[OF h] events_def snd_conv attempts_of_run http_attempts_failed
    by (simp add: py_range_def max_tries_def)
  moreover
  have "verdict (run_flask_target not_found_world ''rules_venv'' ''//:flask_hello_world.pex'' {})
       = Inl (Unreachable (replicate 31 ''HTTP Error 404: NOT FOUND''))"
    by (simp add: run_all_fail[OF h] verdict_def)
       (simp add: not_found_world_def py_range_def max_tries_def map_replicate_const)
  moreover have "fetch not_found_world 0 = HTTPError_raised ''HTTP Error 404: NOT FOUND''"
    by (simp add: not_found_world_def)
  ultimately show ?thesis by simp
qed


text \<open>
  C2, as the code has it. The \<^verbatim>\<open>except\<close> clause names \<^verbatim>\<open>HTTPError\<close> beside
  \<^verbatim>\<open>URLError\<close>, and \<^verbatim>\<open>urlopen\<close> raises \<^verbatim>\<open>HTTPError\<close> for a response with an error
  status. So, with every attempt before attempt \<open>k\<close> caught by the clause:
  \<^item> if \<^verbatim>\<open>urlopen\<close> returns a response at attempt \<open>k\<close>, polling stops there: \<open>k + 1\<close>
    requests in all, and the verdict is success when the body is \<^verbatim>\<open>hello world!\<close> and
    the mismatch of that body otherwise;
  \<^item> if attempt \<open>k\<close> raises \<^verbatim>\<open>HTTPError\<close> or another \<^verbatim>\<open>URLError\<close> and an attempt
    remains, the run sleeps 5 seconds and issues request \<open>k + 1\<close>;
  \<^item> the text of such an error is entry \<open>k\<close> of the log that an unreachable failure carries;
  \<^item> if attempt \<open>k\<close> raises any other exception (a timeout or a disconnect while the
    response is read, a decoding error), that exception ends the run after \<open>k + 1\<close>
    requests: it is not logged and not retried;
  \<^item> hence a request after attempt \<open>k\<close> is issued only when attempt \<open>k\<close> raised
    \<^verbatim>\<open>HTTPError\<close> or another \<^verbatim>\<open>URLError\<close>.
\<close>

theorem response_stops_errors_retry:
  assumes "dir_exists w" "poll_result w = None"
    and "k \<le> max_tries" "\<forall>j<k. retryable (fetch w j)"
  shows "(\<forall>body. fetch w k = Fetched body \<longrightarrow>
            http_attempts (events (run_flask_target w example target tested)) = k + 1
          \<and> verdict (run_flask_target w example target tested)
               = (if body = ''hello world!'' then Inr () else Inl (ContentMismatch body)))
       \<and> (retryable (fetch w k) \<and> k < max_tries \<longrightarrow>
            failed_attempt (free_port w) k = [Urlopen (free_port w), Sleep 5]
          \<and> prefix (launch_events w example target @ Poll #
                      concat (map (failed_attempt (free_port w)) (py_range (Suc k))) @
                      [Urlopen (free_port w)])
                    (events (run_flask_target w example target tested)))
       \<and> (retryable (fetch w k) \<longrightarrow>
            (\<forall>logs. verdict (run_flask_target w example target tested) = Inl (Unreachable logs) \<longrightarrow>
               length logs = max_tries + 1 \<and> logs ! k = error_text (fetch w k)))
       \<and> (\<forall>msg. fetch w k = Other_raised msg \<longrightarrow>
            http_attempts (events (run_flask_target w example target tested)) = k + 1
          \<and> verdict (run_flask_target w example target tested) = Inl (Propagated msg)
          \<and> events (run_flask_target w example target tested)
              = launch_events w example target @ Poll #
                  (concat (map (failed_attempt (free_port w)) (py_range k)) @ [Urlopen (free_port w)]) @
                  cleanup w @ [LockRelease])
       \<and> (k + 1 < http_attempts (events (run_flask_target w example target tested)) \<longrightarrow>
            (\<exists>msg. fetch w k = HTTPError_raised msg \<or> fetch w k = URLError_raised msg))"
proof (intro conjI allI impI)
  fix body
  assume f: "fetch w k = Fetched body"
  note run = run_first_response[OF assms f, of example target tested]
  show "http_attempts (events (run_flask_target w example target tested)) = k + 1"
    unfolding run events_def snd_conv attempts_first_response
    by (simp add: py_range_def)
  show "verdict (run_flask_target w example target tested)
          = (if body = ''hello world!'' then Inr () else Inl (ContentMismatch body))"
    by (simp add: run verdict_def)
next
  assume "retryable (fetch w k) \<and> k < max_tries"
  then show "failed_attempt (free_port w) k = [Urlopen (free_port w), Sleep 5]"
    by (simp add: failed_attempt_def pause_before_retry_def)
next
  assume a: "retryable (fetch w k) \<and> k < max_tries"
  with assms(4) have "\<forall>j\<le>k. retryable (fetch w j)"
    by (auto simp: le_less)
  with a run_retry[OF assms(1,2), of k example target tested]
  show "prefix (launch_events w example target @ Poll #
                      concat (map (failed_attempt (free_port w)) (py_range (Suc k))) @
                      [Urlopen (free_port w)])
                    (events (run_flask_target w example target tested))"
    by blast
next
  fix logs
  assume "retryable (fetch w k)"
    and "verdict (run_flask_target w example target tested) = Inl (Unreachable logs)"
  from run_unreachable[OF assms(1,2) this(2)]
  have l: "logs = map (\<lambda>i. error_text (fetch w i)) (py_range (max_tries + 1))" .
  then show "length logs = max_tries + 1" by (simp add: py_range_def)
  from l assms(3) show "logs ! k = error_text (fetch w k)"
    unfolding py_range_def by (simp add: nth_append del: upt_Suc)
next
  fix msg
  assume f: "fetch w k = Other_raised msg"
  note run = run_first_other[OF assms f, of example target tested]
  show "http_attempts (events (run_flask_target w example target tested)) = k + 1"
    unfolding run events_def snd_conv attempts_first_response
    by (simp add: py_range_def)
  show "verdict (run_flask_target w example target tested) = Inl (Propagated msg)"
    by (simp add: run verdict_def)
  show "events (run_flask_target w example target tested)
          = launch_events w example target @ Poll #
              (concat (map (failed_attempt (free_port w)) (py_range k)) @ [Urlopen (free_port w)]) @
              cleanup w @ [LockRelease]"
    by (simp add: run events_def)
next
  assume more: "k + 1 < http_attempts (events (run_flask_target w example target tested))"
  show "\<exists>msg. fetch w k = HTTPError_raised msg \<or> fetch w k = URLError_raised msg"
  proof (cases "fetch w k")
    case (Fetched body)
    have "http_attempts (events (run_flask_target w example target tested)) = k + 1"
      unfolding run_first_response[OF assms Fetched, of example target tested]
        events_def snd_conv attempts_first_response
      by (simp add: py_range_def)
    with more show ?thesis by simp
  next
    case (Other_raised msg)
    have "http_attempts (events (run_flask_target w example target tested)) = k + 1"
      unfolding run_first_other[OF assms Other_raised, of example target tested]
        events_def snd_conv attempts_first_response
      by (simp add: py_range_def)
    with more show ?thesis by simp
  qed simp_all
qed

text \<open>
  A server that answers the first request with status 503 and the second with
  \<^verbatim>\<open>hello world!\<close>: the run sleeps and asks again. A server that accepts the connection
  and never answers: the timeout of the response ends the run after one request.
\<close>

theorem response_stops_errors_retry_witness:
  "retryable (fetch error_status_world 0)
   \<and> prefix [LockAcquire, Register ''rules_venv'', DirExists ''rules_venv'', GetFreePort 40123,
             Popen [''bazel'', ''run'', ''//:flask_hello_world.pex''] ''rules_venv'' 40123,
             Poll, Urlopen 40123, Sleep 5, Urlopen 40123]
       (events (run_flask_target error_status_world ''rules_venv'' ''//:flask_hello_world.pex'' {}))
   \<and> fetch timeout_world 0 = Other_raised ''timed out''
   \<and> http_attempts (events (run_flask_target timeout_world ''rules_venv'' ''//:flask_hello_world.pex'' {})) = 1
   \<and> verdict (run_flask_target timeout_world ''rules_venv'' ''//:flask_hello_world.pex'' {})
       = Inl (Propagated ''timed out'')"
proof -
  have h: "dir_exists error_status_world" "poll_result error_status_world = None"
    "0 \<le> max_tries" "\<forall>j<0. retryable (fetch error_status_world j)"
    by (simp_all add: error_status_world_def)
  have r: "retryable (fetch error_status_world 0) \<and> 0 < max_tries"
    by (simp add: error_status_world_def max_tries_def)
  have t: "dir_exists timeout_world" "poll_result timeout_world = None"
    "0 \<le> max_tries" "\<forall>j<0. retryable (fetch timeout_world j)"
    and o: "fetch timeout_world 0 = Other_raised ''timed out''"
    by (simp_all add: timeout_world_def)
  note E = response_stops_errors_retry[OF h, of "''rules_venv''" "''//:flask_hello_world.pex''" "{}"]
  note T = response_stops_errors_retry[OF t, of "''rules_venv''" "''//:flask_hello_world.pex''" "{}",
      THEN conjunct2, THEN conjunct2, THEN conjunct2, THEN conjunct1, rule_format, OF o]
  from E r
  have "prefix (launch_events error_status_world ''rules_venv'' ''//:flask_hello_world.pex'' @ Poll #
                  concat (map (failed_attempt (free_port error_status_world)) (py_range (Suc 0))) @
                  [Urlopen (free_port error_status_world)])
          (events (run_flask_target error_status_world ''rules_venv'' ''//:flask_hello_world.pex'' {}))"
    by blast
  moreover have "launch_events error_status_world ''rules_venv'' ''//:flask_hello_world.pex'' @ Poll #
                  concat (map (failed_attempt (free_port error_status_world)) (py_range (Suc 0))) @
                  [Urlopen (free_port error_status_world)]
      = [LockAcquire, Register ''rules_venv'', DirExists ''rules_venv'', GetFreePort 40123,
         Popen [''bazel'', ''run'', ''//:flask_hello_world.pex''] ''rules_venv'' 40123,
         Poll, Urlopen 40123, Sleep 5, Urlopen 40123]"
    by (simp add: launch_events_def launch_cmd_def failed_attempt_def pause_before_retry_def
        py_range_def max_tries_def error_status_world_def)
  ultimately show ?thesis using r o T[THEN conjunct1] T[THEN conjunct2, THEN conjunct1] by simp
qed

text \<open>
  C2 as stated fails at that server: the response with status 503 does not end the
  polling. The run issues a second request and succeeds on its body.
\<close>

theorem error_status_counterexample:
  "fetch error_status_world 0 = HTTPError_raised ''HTTP Error 503: Service Unavailable''
   \<and> http_attempts (events (run_flask_target error_status_world ''rules_venv'' ''//:flask_hello_world.pex'' {})) = 2
   \<and> http_attempts (events (run_flask_target error_status_world ''rules_venv'' ''//:flask_hello_world.pex'' {})) \<noteq> 1
   \<and> verdict (run_flask_target error_status_world ''rules_venv'' ''//:flask_hello_world.pex'' {}) = Inr ()"
proof -
  have h: "dir_exists error_status_world" "poll_result error_status_world = None"
    "1 \<le> max_tries" "\<forall>j<1. retryable (fetch error_status_world j)"
    "fetch error_status_world 1 = Fetched ''hello world!''"
    by (simp_all add: error_status_world_def max_tries_def)
  note run = run_first_response[OF h, of "''rules_venv''" "''//:flask_hello_world.pex''" "{}"]
  have "http_attempts (events (run_flask_target error_status_world ''rules_venv'' ''//:flask_hello_world.pex'' {})) = 2"
    unfolding run events_def snd_conv attempts_first_response
    by (simp add: py_range_def)
  moreover have "fetch error_status_world 0 = HTTPError_raised ''HTTP Error 503: Service Unavailable''"
    by (simp add: error_status_world_def)
  ultimately show ?thesis by (simp add: run verdict_def)
qed

subsection \<open>The test of the example directory\<close>

text \<open>
  When the path of the example does not exist at all, the run fails with the
  target-not-found condition. Its whole trace is: take the lock, register the name, test
  the path, release the lock. No process is launched.
\<close>

lemma missing_path_not_found:
  "\<not> dir_exists w \<Longrightarrow>
     verdict (run_flask_target w example target tested) = Inl (TargetNotFound example)
   \<and> events (run_flask_target w example target tested)
       = [LockAcquire, Register example, DirExists example, LockRelease]
   \<and> launches (events (run_flask_target w example target tested)) = 0"
  by (simp add: run_flask_target_def locked_body_def verdict_def events_def launches_def)


section \<open>Properties of the coverage audit\<close>

lemma scan_examples_acc:
  "scan_examples listing acc =
     acc \<union> set (map entry_name (filter (\<lambda>p. entry_is_dir p \<and> \<not> startswith_dot (entry_name p)
        \<and> entry_name p \<noteq> ''__pycache__'' \<and> entry_has_build p) listing))"
  by (induction listing arbitrary: acc) auto

lemma finite_scan_examples: "finite (scan_examples listing {})"
  by (simp add: scan_examples_acc)

lemma scan_on_disk_A: "scan_examples on_disk_A {} = {''A''}"
  by (simp add: on_disk_A_def startswith_dot_def)

lemma scan_on_disk_AB: "scan_examples on_disk_AB {} = {''A'', ''B''}"
  by (auto simp add: on_disk_AB_def on_disk_A_def startswith_dot_def)

lemma audit_A_B: "tearDownClass on_disk_A {''B''} = Inl (NotTested [''A''])"
  by (simp add: tearDownClass_def scan_on_disk_A)

text \<open>
  C6, as the code has it. The discovered examples are the names of the listed directories
  that are not hidden, are not \<^verbatim>\<open>__pycache__\<close> and hold \<^verbatim>\<open>BUILD.bazel\<close>. The audit
  tests for untested names first: if some discovered name was not tested it fails with
  the list of exactly those names. Only when every discovered name was tested does it
  look at the tested names that were not discovered, and fails with the list of exactly
  those. When both sets are equal it passes.
\<close>

theorem coverage_audit:
  assumes "finite tested"
  shows "scan_examples listing {} =
           set (map entry_name (filter (\<lambda>p. entry_is_dir p \<and> \<not> startswith_dot (entry_name p)
             \<and> entry_name p \<noteq> ''__pycache__'' \<and> entry_has_build p) listing))
       \<and> (\<not> scan_examples listing {} \<subseteq> tested \<longrightarrow>
            tearDownClass listing tested
              = Inl (NotTested (sorted_list_of_set (scan_examples listing {} - tested)))
          \<and> set (sorted_list_of_set (scan_examples listing {} - tested))
              = scan_examples listing {} - tested
          \<and> distinct (sorted_list_of_set (scan_examples listing {} - tested)))
       \<and> (scan_examples listing {} \<subseteq> tested \<and> \<not> tested \<subseteq> scan_examples listing {} \<longrightarrow>
            tearDownClass listing tested
              = Inl (NonExistent (sorted_list_of_set (tested - scan_examples listing {})))
          \<and> set (sorted_list_of_set (tested - scan_examples listing {}))
              = tested - scan_examples listing {}
          \<and> distinct (sorted_list_of_set (tested - scan_examples listing {})))
       \<and> (tested = scan_examples listing {} \<longrightarrow> tearDownClass listing tested = Inr ())"
proof (intro conjI impI)
  show "scan_examples listing {} =
           set (map entry_name (filter (\<lambda>p. entry_is_dir p \<and> \<not> startswith_dot (entry_name p)
             \<and> entry_name p \<noteq> ''__pycache__'' \<and> entry_has_build p) listing))"
    using scan_examples_acc[of listing "{}"] by simp
next
  assume "\<not> scan_examples listing {} \<subseteq> tested"
  then have "scan_examples listing {} - tested \<noteq> {}" by blast
  then show "tearDownClass listing tested
              = Inl (NotTested (sorted_list_of_set (scan_examples listing {} - tested)))"
    by (simp add: tearDownClass_def Let_def)
next
  show "set (sorted_list_of_set (scan_examples listing {} - tested))
              = scan_examples listing {} - tested"
    using finite_scan_examples[of listing] by simp
next
  assume a: "scan_examples listing {} \<subseteq> tested \<and> \<not> tested \<subseteq> scan_examples listing {}"
  then have "scan_examples listing {} - tested = {}" "tested - scan_examples listing {} \<noteq> {}"
    by blast+
  then show "tearDownClass listing tested
              = Inl (NonExistent (sorted_list_of_set (tested - scan_examples listing {})))"
    by (simp add: tearDownClass_def Let_def)
next
  show "set (sorted_list_of_set (tested - scan_examples listing {}))
              = tested - scan_examples listing {}"
    using assms by simp
next
  assume "tested = scan_examples listing {}"
  then show "tearDownClass listing tested = Inr ()"
    by (simp add: tearDownClass_def Let_def)
qed simp_all

text \<open>
  The cases of the specification: A and B on disk and only A tested; A and B tested and
  only A on disk; A on disk and A tested.
\<close>

theorem coverage_audit_witness:
  "tearDownClass on_disk_AB {''A''} = Inl (NotTested [''B''])
   \<and> tearDownClass on_disk_A {''A'', ''B''} = Inl (NonExistent [''B''])
   \<and> tearDownClass on_disk_A {''A''} = Inr ()"
proof -
  have f: "finite {''A''}" "finite {''A'', ''B''}" by simp_all
  have d: "scan_examples on_disk_AB {} - {''A''} = {''B''}"
    "{''A'', ''B''} - scan_examples on_disk_A {} = {''B''}"
    by (auto simp: scan_on_disk_A scan_on_disk_AB)
  have "\<not> scan_examples on_disk_AB {} \<subseteq> {''A''}"
    by (simp add: scan_on_disk_AB)
  with coverage_audit[OF f(1), of on_disk_AB]
  have "tearDownClass on_disk_AB {''A''} = Inl (NotTested [''B''])"
    by (simp add: d)
  moreover have "scan_examples on_disk_A {} \<subseteq> {''A'', ''B''} \<and> \<not> {''A'', ''B''} \<subseteq> scan_examples on_disk_A {}"
    by (simp add: scan_on_disk_A)
  with coverage_audit[OF f(2), of on_disk_A]
  have "tearDownClass on_disk_A {''A'', ''B''} = Inl (NonExistent [''B''])"
    by (simp add: d)
  moreover have "{''A''} = scan_examples on_disk_A {}"
    by (simp add: scan_on_disk_A)
  with coverage_audit[OF f(1), of on_disk_A]
  have "tearDownClass on_disk_A {''A''} = Inr ()"
    by blast
  ultimately show ?thesis by blast
qed

text \<open>
  C6 as stated fails with A on disk and only B tested: B was tested and has no directory,
  yet the audit fails with the untested names, and B is not listed.
\<close>

theorem phantom_not_listed_counterexample:
  "''B'' \<notin> scan_examples on_disk_A {}
   \<and> tearDownClass on_disk_A {''B''} = Inl (NotTested [''A''])
   \<and> tearDownClass on_disk_A {''B''} \<noteq> Inl (NonExistent [''B''])"
  by (simp add: audit_A_B scan_on_disk_A)

text \<open>
  C9. The registry after a call is the registry before it with the example's name added,
  whatever the world and whatever the verdict, and the name is registered before the
  directory is tested. A call for a directory that does not exist fails with target not
  found and still registers the name. Since a name without a directory is not discovered
  by the audit, the audit after such a call, with every discovered example tested, fails
  with the non-existent condition and lists the name.
\<close>

theorem registered_whatever_the_outcome:
  "registry (run_flask_target w example target tested) = insert example tested
   \<and> take 3 (events (run_flask_target w example target tested))
       = [LockAcquire, Register example, DirExists example]
   \<and> (\<not> dir_exists w \<longrightarrow>
         verdict (run_flask_target w example target tested) = Inl (TargetNotFound example)
       \<and> example \<in> registry (run_flask_target w example target tested))
   \<and> (finite tested \<and> example \<notin> scan_examples listing {}
        \<and> scan_examples listing {} \<subseteq> insert example tested \<longrightarrow>
         tearDownClass listing (registry (run_flask_target w example target tested))
           = Inl (NonExistent (sorted_list_of_set (insert example tested - scan_examples listing {})))
       \<and> example \<in> set (sorted_list_of_set (insert example tested - scan_examples listing {})))"
proof -
  have reg: "registry (run_flask_target w example target tested) = insert example tested"
    by (simp add: run_flask_target_def locked_body_def registry_def Let_def split: prod.splits)
  have "take 3 (events (run_flask_target w example target tested))
       = [LockAcquire, Register example, DirExists example]"
    by (simp add: run_flask_target_def locked_body_def events_def Let_def split: prod.splits)
  moreover have "\<not> dir_exists w \<longrightarrow>
         verdict (run_flask_target w example target tested) = Inl (TargetNotFound example)"
    by (simp add: run_flask_target_def locked_body_def verdict_def)
  moreover have "tearDownClass listing (insert example tested)
           = Inl (NonExistent (sorted_list_of_set (insert example tested - scan_examples listing {})))
       \<and> example \<in> set (sorted_list_of_set (insert example tested - scan_examples listing {}))"
    if a: "finite tested \<and> example \<notin> scan_examples listing {}
        \<and> scan_examples listing {} \<subseteq> insert example tested"
  proof -
    from a have "scan_examples listing {} - insert example tested = {}"
      and "example \<in> insert example tested - scan_examples listing {}"
      and "finite (insert example tested - scan_examples listing {})"
      by auto
    then show ?thesis
      by (auto simp: tearDownClass_def Let_def)
  qed
  ultimately show ?thesis using reg by simp
qed

text \<open>A call for a directory that does not exist, with A on disk and A already tested.\<close>

theorem registered_whatever_the_outcome_witness:
  "verdict (run_flask_target missing_dir_world ''B'' ''//:flask_hello_world.pex'' {''A''})
     = Inl (TargetNotFound ''B'')
   \<and> registry (run_flask_target missing_dir_world ''B'' ''//:flask_hello_world.pex'' {''A''})
       = {''B'', ''A''}
   \<and> tearDownClass on_disk_A
        (registry (run_flask_target missing_dir_world ''B'' ''//:flask_hello_world.pex'' {''A''}))
       = Inl (NonExistent [''B''])"
proof -
  note R = registered_whatever_the_outcome[of missing_dir_world "''B''"
      "''//:flask_hello_world.pex''" "{''A''}" on_disk_A]
  have h: "\<not> dir_exists missing_dir_world"
    by (simp add: missing_dir_world_def)
  have a: "finite {''A''} \<and> ''B'' \<notin> scan_examples on_disk_A {}
        \<and> scan_examples on_disk_A {} \<subseteq> insert ''B'' {''A''}"
    by (simp add: scan_on_disk_A)
  have d: "insert ''B'' {''A''} - scan_examples on_disk_A {} = {''B''}"
    by (auto simp: scan_on_disk_A)
  from R[THEN conjunct2, THEN conjunct2, THEN conjunct1, rule_format, OF h]
  have "verdict (run_flask_target missing_dir_world ''B'' ''//:flask_hello_world.pex'' {''A''})
     = Inl (TargetNotFound ''B'')"
    by blast
  moreover from R[THEN conjunct2, THEN conjunct2, THEN conjunct2, rule_format, OF a]
  have "tearDownClass on_disk_A
        (registry (run_flask_target missing_dir_world ''B'' ''//:flask_hello_world.pex'' {''A''}))
       = Inl (NonExistent [''B''])"
    by (simp add: d)
  ultimately show ?thesis using R[THEN conjunct1] by simp
qed

section \<open>Properties of the lock\<close>

lemma bracketed_append:
  "bracketed b xs \<Longrightarrow> bracketed b (xs @ ys) = bracketed False ys"
  by (induction xs arbitrary: b) (auto split: if_splits)

lemma bracketed_inside:
  "LockAcquire \<notin> set mid \<Longrightarrow> LockRelease \<notin> set mid \<Longrightarrow>
   bracketed True (mid @ rest) = bracketed True rest"
  by (induction mid) auto

lemma run_bracketed: "bracketed False (events (run_flask_target w example target tested))"
proof (cases "dir_exists w")
  case False
  then show ?thesis
    by (simp add: run_flask_target_def locked_body_def events_def)
next
  case True
  from run_launched[OF True, of example target tested] obtain mid where
    ev: "events (run_flask_target w example target tested) =
           launch_events w example target @ Poll # mid @ cleanup w @ [LockRelease]"
    and mid: "set mid \<subseteq> {Urlopen (free_port w), Sleep 5}"
    by blast
  from mid have "LockAcquire \<notin> set mid" "LockRelease \<notin> set mid" by auto
  from bracketed_inside[OF this, of "cleanup w @ [LockRelease]"]
  show ?thesis
    by (simp add: ev launch_events_def cleanup_def)
qed

lemma thread_program_bracketed: "bracketed False (thread_program calls)"
proof (induction calls)
  case Nil
  then show ?case by (simp add: thread_program_def)
next
  case (Cons c calls)
  obtain w example target where c: "c = (w, example, target)" by (cases c) auto
  have "thread_program (c # calls) =
          events (run_flask_target w example target {}) @ thread_program calls"
    by (simp add: thread_program_def c)
  with bracketed_append[OF run_bracketed, of w example target "{}" "thread_program calls"] Cons
  show ?case by simp
qed

lemma thread_step_cases:
  assumes inv: "\<forall>u. bracketed (lock_holder s = Some u) (pending s u)"
    and step: "thread_step s t = (s', out)"
  shows "(\<forall>u. bracketed (lock_holder s' = Some u) (pending s' u))
       \<and> exclusive (lock_holder s) (out @ rest) = exclusive (lock_holder s') rest"
proof (cases "pending s t")
  case Nil
  with step have "s' = s" "out = []" by (simp_all add: thread_step_def)
  with inv show ?thesis by simp
next
  case (Cons ev evs)
  from inv have t: "bracketed (lock_holder s = Some t) (ev # evs)"
    using Cons by metis
  consider (acq) "ev = LockAcquire" | (rel) "ev = LockRelease"
    | (other) "ev \<noteq> LockAcquire" "ev \<noteq> LockRelease" by blast
  then show ?thesis
  proof cases
    case acq
    with t have nt: "lock_holder s \<noteq> Some t" and b: "bracketed True evs" by simp_all
    show ?thesis
    proof (cases "lock_holder s")
      case None
      with step Cons acq have s': "s' = s\<lparr>lock_holder := Some t, pending := (pending s)(t := evs)\<rparr>"
        and out: "out = [(t, LockAcquire)]"
        by (simp_all add: thread_step_def)
      have "bracketed (lock_holder s' = Some u) (pending s' u)" for u
      proof (cases "u = t")
        case True
        with b show ?thesis by (simp add: s')
      next
        case False
        with inv[rule_format, of u] None show ?thesis by (simp add: s')
      qed
      then show ?thesis by (simp add: out None s')
    next
      case (Some h)
      with step Cons acq have "s' = s" "out = []" by (simp_all add: thread_step_def)
      with inv show ?thesis by simp
    qed
  next
    case rel
    with t have h: "lock_holder s = Some t" and b: "bracketed False evs" by simp_all
    from step Cons rel have s': "s' = s\<lparr>lock_holder := None, pending := (pending s)(t := evs)\<rparr>"
      and out: "out = [(t, LockRelease)]"
      by (simp_all add: thread_step_def)
    have "bracketed (lock_holder s' = Some u) (pending s' u)" for u
    proof (cases "u = t")
      case True
      with b show ?thesis by (simp add: s')
    next
      case False
      with inv[rule_format, of u] h show ?thesis by (simp add: s')
    qed
    then show ?thesis by (simp add: out h s')
  next
    case other
    with t have h: "lock_holder s = Some t" and b: "bracketed True evs" by auto
    from step Cons other have s': "s' = s\<lparr>pending := (pending s)(t := evs)\<rparr>"
      and out: "out = [(t, ev)]"
      by (simp_all add: thread_step_def)
    have "bracketed (lock_holder s' = Some u) (pending s' u)" for u
    proof (cases "u = t")
      case True
      with b h show ?thesis by (simp add: s')
    next
      case False
      with inv[rule_format, of u] show ?thesis by (simp add: s')
    qed
    then show ?thesis using other by (simp add: out h s')
  qed
qed

lemma interleave_exclusive:
  "\<forall>u. bracketed (lock_holder s = Some u) (pending s u) \<Longrightarrow>
   exclusive (lock_holder s) (interleave s sched)"
proof (induction sched arbitrary: s)
  case Nil
  then show ?case by simp
next
  case (Cons t sched)
  obtain s' out where step: "thread_step s t = (s', out)" by (cases "thread_step s t") auto
  note C = thread_step_cases[OF Cons.prems step, of "interleave s' sched"]
  from Cons.IH[OF C[THEN conjunct1]] C[THEN conjunct2]
  show ?case by (simp add: step)
qed

lemma initial_state_bracketed:
  "\<forall>u. bracketed (lock_holder (initial_state calls) = Some u) (pending (initial_state calls) u)"
  by (simp add: initial_state_def thread_program_bracketed)

lemma run_lock_ends:
  "events (run_flask_target w example target tested)
     = LockAcquire # butlast (tl (events (run_flask_target w example target tested))) @ [LockRelease]
   \<and> LockAcquire \<notin> set (butlast (tl (events (run_flask_target w example target tested))))
   \<and> LockRelease \<notin> set (butlast (tl (events (run_flask_target w example target tested))))"
proof (cases "dir_exists w")
  case False
  then show ?thesis
    by (simp add: run_flask_target_def locked_body_def events_def)
next
  case True
  from run_launched[OF True, of example target tested] obtain mid where
    ev: "events (run_flask_target w example target tested) =
           launch_events w example target @ Poll # mid @ cleanup w @ [LockRelease]"
    and mid: "set mid \<subseteq> {Urlopen (free_port w), Sleep 5}"
    by blast
  from mid have "LockAcquire \<notin> set mid" "LockRelease \<notin> set mid" by auto
  then show ?thesis
    by (simp add: ev launch_events_def cleanup_def butlast_append)
qed

text \<open>
  C8. Whatever calls the threads make and whatever the scheduler does, in the interleaved
  trace the lock is taken only when it is free and every other event is an event of the
  thread that holds it: the events of two runs never interleave. One run takes the lock as its
  first event and releases it as its last, and touches the lock nowhere between; when the
  process is launched, the port is acquired after the lock is taken, and the sleep of
  1 second is the event just before the release.
\<close>

theorem runs_are_serialised:
  "exclusive None (interleave (initial_state calls) sched)
   \<and> events (run_flask_target w example target tested)
       = LockAcquire # butlast (tl (events (run_flask_target w example target tested))) @ [LockRelease]
   \<and> LockAcquire \<notin> set (butlast (tl (events (run_flask_target w example target tested))))
   \<and> LockRelease \<notin> set (butlast (tl (events (run_flask_target w example target tested))))
   \<and> (dir_exists w \<longrightarrow>
         take 4 (events (run_flask_target w example target tested))
           = [LockAcquire, Register example, DirExists example, GetFreePort (free_port w)]
       \<and> suffix [Sleep 1, LockRelease] (events (run_flask_target w example target tested)))"
proof -
  have "exclusive None (interleave (initial_state calls) sched)"
    using interleave_exclusive[OF initial_state_bracketed, of calls sched]
    by (simp add: initial_state_def)
  moreover have "take 4 (events (run_flask_target w example target tested))
           = [LockAcquire, Register example, DirExists example, GetFreePort (free_port w)]
       \<and> suffix [Sleep 1, LockRelease] (events (run_flask_target w example target tested))"
    if d: "dir_exists w"
  proof -
    from run_launched[OF d, of example target tested] obtain mid where
      ev: "events (run_flask_target w example target tested) =
             launch_events w example target @ Poll # mid @ cleanup w @ [LockRelease]"
      by blast
    have "suffix [Sleep 1, LockRelease] (events (run_flask_target w example target tested))"
      unfolding ev suffix_def
      by (intro exI[of _ "launch_events w example target @ Poll # mid @ butlast (cleanup w)"])
         (simp add: cleanup_def)
    then show ?thesis by (simp add: ev launch_events_def)
  qed
  ultimately show ?thesis using run_lock_ends[of w example target tested] by blast
qed

text \<open>
  Two threads scheduled in turn: the second one waits until the first has released the
  lock, after its cleanup and its sleep.
\<close>

theorem runs_are_serialised_witness:
  "exclusive None (interleave (initial_state two_callers) in_turn)
   \<and> interleave (initial_state two_callers) in_turn =
       [(0, LockAcquire), (0, Register ''rules_venv''), (0, DirExists ''rules_venv''),
        (0, GetFreePort 40123),
        (0, Popen [''bazel'', ''run'', ''//:flask_hello_world.pex''] ''rules_venv'' 40123),
        (0, Poll), (0, Terminate), (0, Wait (Some 5)), (0, Sleep 1), (0, LockRelease),
        (1, LockAcquire), (1, Register ''rules_python''), (1, DirExists ''rules_python''),
        (1, LockRelease)]
   \<and> suffix [Sleep 1, LockRelease]
        (events (run_flask_target crashed_world ''rules_venv'' ''//:flask_hello_world.pex'' {}))"
proof -
  have d: "dir_exists crashed_world" by (simp add: crashed_world_def)
  have p0: "thread_program (two_callers 0) =
      [LockAcquire, Register ''rules_venv'', DirExists ''rules_venv'', GetFreePort 40123,
       Popen [''bazel'', ''run'', ''//:flask_hello_world.pex''] ''rules_venv'' 40123,
       Poll, Terminate, Wait (Some 5), Sleep 1, LockRelease]"
    by (simp add: thread_program_def two_callers_def run_flask_target_def locked_body_def
        guarded_body_def events_def cleanup_def launch_cmd_def crashed_world_def)
  have p1: "thread_program (two_callers (Suc 0)) =
      [LockAcquire, Register ''rules_python'', DirExists ''rules_python'', LockRelease]"
    by (simp add: thread_program_def two_callers_def run_flask_target_def locked_body_def
        events_def missing_dir_world_def)
  have tr: "interleave (initial_state two_callers) in_turn =
       [(0, LockAcquire), (0, Register ''rules_venv''), (0, DirExists ''rules_venv''),
        (0, GetFreePort 40123),
        (0, Popen [''bazel'', ''run'', ''//:flask_hello_world.pex''] ''rules_venv'' 40123),
        (0, Poll), (0, Terminate), (0, Wait (Some 5)), (0, Sleep 1), (0, LockRelease),
        (1, LockAcquire), (1, Register ''rules_python''), (1, DirExists ''rules_python''),
        (1, LockRelease)]"
    by (simp add: initial_state_def in_turn_def thread_step_def p0 p1)
  note R = runs_are_serialised[of two_callers in_turn crashed_world "''rules_venv''"
      "''//:flask_hello_world.pex''" "{}"]
  from R[THEN conjunct1] tr
    R[THEN conjunct2, THEN conjunct2, THEN conjunct2, THEN conjunct2, rule_format, OF d, THEN conjunct2]
  show ?thesis by (simp only:) 
qed

section \<open>Properties of the example application\<close>

text \<open>
  C10. The handler of the root path returns the string \<^verbatim>\<open>hello world!\<close>. The port given
  to \<^verbatim>\<open>app.run\<close> is 5000 when \<^verbatim>\<open>FLASK_RUN_PORT\<close> is not set, and the integer that
  \<^verbatim>\<open>int\<close> reads from the variable's value when it is set.
\<close>

theorem hello_world_app:
  "hello_world = ''hello world!''
   \<and> (environ ''FLASK_RUN_PORT'' = None \<longrightarrow> main_port parse environ = Inr 5000)
   \<and> (\<forall>s n. environ ''FLASK_RUN_PORT'' = Some s \<and> parse s = Some n \<longrightarrow>
         main_port parse environ = Inr n)"
  by (simp add: hello_world_def main_port_def environ_get_def)

text \<open>An empty environment, and the environment that the test harness builds for port 40123.\<close>

theorem hello_world_app_witness:
  "main_port parse_digits Map.empty = Inr 5000
   \<and> main_port parse_digits [''FLASK_RUN_PORT'' \<mapsto> ''40123''] = Inr 40123"
proof -
  have e: "Map.empty ''FLASK_RUN_PORT'' = (None :: string option)" by simp
  have s: "[''FLASK_RUN_PORT'' \<mapsto> ''40123''] ''FLASK_RUN_PORT'' = Some ''40123''
           \<and> parse_digits ''40123'' = Some 40123"
    by (simp add: parse_digits_def)
  note H = hello_world_app[of Map.empty parse_digits]
  note G = hello_world_app[of "[''FLASK_RUN_PORT'' \<mapsto> ''40123'']" parse_digits]
  from H[THEN conjunct2, THEN conjunct1, rule_format, OF e]
    G[THEN conjunct2, THEN conjunct2, rule_format, OF s]
  show ?thesis by (simp only:)
qed

end
